theory Spec2Isabelle
  imports Complex_Main "HOL-Library.AList"
begin

section \<open>Conventions of the embedding\<close>

text \<open>
  The financial planner is Python. Its numbers are Python ints and floats; the embedding
  uses \<open>int\<close> for ages, calendar years, loan terms and payment counts, and \<open>real\<close> for
  money and rates, so that a result is about the exact arithmetic of the formulas of the
  source, without the rounding and overflow of binary floating point. Two parts of the code
  are given a second reading where the floats matter: the zero-rate branch of the mortgage
  balance in binary64 arithmetic, and the account loop of a year over floats that may be
  NaN.

  A Python dictionary with optional keys is a record whose optional fields have an
  \<open>option\<close> type: \<open>None\<close> is an absent key (or a key holding None/NaN where the source
  tests with \<open>pd.isna\<close>). A raise of the source is the left injection of a sum.
\<close>

datatype error = KeyError | ZeroDivisionError | IndexError

type_synonym 'a result = "error + 'a"

text \<open>Sequencing of computations that may raise: the first raise wins.\<close>

definition rbind :: "'a result \<Rightarrow> ('a \<Rightarrow> 'b result) \<Rightarrow> 'b result" where
  "rbind m f = (case m of Inl e \<Rightarrow> Inl e | Inr v \<Rightarrow> f v)"

text \<open>\<open>d.get(key, default)\<close> on an optional key.\<close>

definition py_get :: "'a option \<Rightarrow> 'a \<Rightarrow> 'a" where
  "py_get v dflt = (case v of None \<Rightarrow> dflt | Some x \<Rightarrow> x)"

text \<open>\<open>d[key]\<close> on an optional key raises KeyError when the key is absent.\<close>

definition py_item :: "'a option \<Rightarrow> 'a result" where
  "py_item v = (case v of None \<Rightarrow> Inl KeyError | Some x \<Rightarrow> Inr x)"

text \<open>
  \<open>x ** n\<close> for a float \<open>x\<close> and an int \<open>n\<close>: a negative power of zero raises
  ZeroDivisionError, every other case is the integer power.
\<close>

definition py_pow :: "real \<Rightarrow> int \<Rightarrow> real result" where
  "py_pow x n = (if x = 0 \<and> n < 0 then Inl ZeroDivisionError else Inr (x powi n))"

text \<open>\<open>a / b\<close> raises ZeroDivisionError on a zero divisor.\<close>

definition py_div :: "real \<Rightarrow> real \<Rightarrow> real result" where
  "py_div a b = (if b = 0 then Inl ZeroDivisionError else Inr (a / b))"

section \<open>Monte Carlo engine: volatility of an account (models/monte\_carlo.py)\<close>

definition calculate_volatility_from_return :: "real \<Rightarrow> real" where
  "calculate_volatility_from_return return_rate =
     (let return_pct = return_rate * 100 in
      if return_pct \<ge> 8.0 then 0.16 + (return_pct - 8.0) * 0.01
      else if return_pct \<ge> 7.0 then 0.12 + (return_pct - 7.0) * 0.04
      else if return_pct \<ge> 5.5 then 0.08 + (return_pct - 5.5) * 0.027
      else if return_pct \<ge> 4.0 then 0.04 + (return_pct - 4.0) * 0.027
      else 0.02 + return_pct * 0.005)"

section \<open>Accounts and their growth rate (models/projection.py)\<close>

record person =
  name :: string
  current_age :: int

text \<open>
  A Python float that may be NaN. A blank cell of the accounts table reaches the engine as
  NaN: \<open>account.get\<close> returns it unchanged, since the key is present. Arithmetic with
  NaN gives NaN, every comparison with NaN is false, and a division by zero raises
  ZeroDivisionError.
\<close>

datatype pyfloat = Num real | NaN

definition fadd :: "pyfloat \<Rightarrow> pyfloat \<Rightarrow> pyfloat" where
  "fadd a b = (case (a, b) of (Num x, Num y) \<Rightarrow> Num (x + y) | _ \<Rightarrow> NaN)"

definition fsub :: "pyfloat \<Rightarrow> pyfloat \<Rightarrow> pyfloat" where
  "fsub a b = (case (a, b) of (Num x, Num y) \<Rightarrow> Num (x - y) | _ \<Rightarrow> NaN)"

definition fmul :: "pyfloat \<Rightarrow> pyfloat \<Rightarrow> pyfloat" where
  "fmul a b = (case (a, b) of (Num x, Num y) \<Rightarrow> Num (x * y) | _ \<Rightarrow> NaN)"

definition fdiv :: "pyfloat \<Rightarrow> pyfloat \<Rightarrow> pyfloat result" where
  "fdiv a b =
     (case b of
        Num y \<Rightarrow> (if y = 0 then Inl ZeroDivisionError
                  else (case a of Num x \<Rightarrow> Inr (Num (x / y)) | NaN \<Rightarrow> Inr NaN))
      | NaN \<Rightarrow> Inr NaN)"

definition fle :: "pyfloat \<Rightarrow> pyfloat \<Rightarrow> bool" where
  "fle a b = (case (a, b) of (Num x, Num y) \<Rightarrow> x \<le> y | _ \<Rightarrow> False)"

definition flt :: "pyfloat \<Rightarrow> pyfloat \<Rightarrow> bool" where
  "flt a b = (case (a, b) of (Num x, Num y) \<Rightarrow> x < y | _ \<Rightarrow> False)"

text \<open>
  An entry of \<open>account_balances\<close> as \<open>project_scenario\<close> builds it from
  \<open>account_details\<close>, every key present, with values that may be NaN.
\<close>

record float_account =
  balance :: pyfloat
  aggressive_rate :: pyfloat
  conservative_rate :: pyfloat
  transition_start_age :: pyfloat
  transition_end_age :: pyfloat
  account_owner :: string

text \<open>
  An entry of \<open>account_details\<close>, as the scenario holds it. The account type, the owner
  and the balance are read with \<open>account[...]\<close>; the other keys with \<open>account.get\<close>.
\<close>

record account_detail =
  account_type :: string
  account_owner :: string
  current_balance :: real
  growth_strategy :: "string option"
  aggressive_rate :: "real option"
  conservative_rate :: "real option"
  transition_start_age :: "int option"
  transition_end_age :: "int option"

text \<open>
  The working copy of an account that the engines keep in \<open>account_balances\<close>. The rates
  are percentages. The deterministic engine sets the first six fields; the Monte Carlo
  engine also stores \<open>growth_strategy\<close> and \<open>account_type\<close>.
\<close>

record account_data =
  balance :: real
  aggressive_rate :: "real option"
  conservative_rate :: "real option"
  transition_start_age :: "int option"
  transition_end_age :: "int option"
  account_owner :: string
  growth_strategy :: "string option"
  account_type :: "string option"

definition calculate_account_growth_rate :: "account_data \<Rightarrow> real \<Rightarrow> person list \<Rightarrow> real" where
  "calculate_account_growth_rate account owner_age people_data =
     (let aggressive = py_get (aggressive_rate account) 6.0;
          conservative = py_get (conservative_rate account) 6.0;
          transition_start = real_of_int (py_get (transition_start_age account) 50);
          transition_end = real_of_int (py_get (transition_end_age account) 65)
      in if owner_age \<le> transition_start then aggressive / 100
         else if owner_age \<ge> transition_end then conservative / 100
         else (let transition_progress =
                     (owner_age - transition_start) / (transition_end - transition_start)
               in (aggressive + (conservative - aggressive) * transition_progress) / 100))"

section \<open>Amortization (models/real\_estate\_v2.py)\<close>

definition calculate_monthly_mortgage_payment :: "real \<Rightarrow> real \<Rightarrow> int \<Rightarrow> real result" where
  "calculate_monthly_mortgage_payment loan_principal annual_rate years =
     (if annual_rate = 0 then py_div loan_principal (real_of_int (years * 12))
      else
        (let monthly_rate = annual_rate / 12;
             num_payments = years * 12
         in rbind (py_pow (1 + monthly_rate) num_payments) (\<lambda>growth.
              py_div (loan_principal * (monthly_rate * growth)) (growth - 1))))"

definition calculate_mortgage_balance :: "real \<Rightarrow> real \<Rightarrow> int \<Rightarrow> int \<Rightarrow> real result" where
  "calculate_mortgage_balance original_principal annual_rate term_years payments_made =
     (if annual_rate = 0 then
        (let total_payments = term_years * 12 in
         rbind (py_div (original_principal * real_of_int payments_made) (real_of_int total_payments))
           (\<lambda>paid. Inr (max 0 (original_principal - paid))))
      else
        (let monthly_rate = annual_rate / 12;
             total_payments = term_years * 12
         in if payments_made \<ge> total_payments then Inr 0
            else
              rbind (py_pow (1 + monthly_rate) total_payments) (\<lambda>full.
              rbind (py_pow (1 + monthly_rate) payments_made) (\<lambda>part.
              rbind (py_div (original_principal * (full - part)) (full - 1)) (\<lambda>remaining_balance.
                Inr (max 0 remaining_balance))))))"

section \<open>The zero-rate branch in binary64 arithmetic (models/real\_estate\_v2.py)\<close>

text \<open>
  A Python float is an IEEE 754 binary64 number, and every arithmetic operation returns
  the exact result rounded to the nearest such number, ties to the even significand.
  \<open>fl64\<close> is this rounding for numbers in the normal range (no overflow, no subnormal
  numbers): a significand of 53 bits. \<open>bit_length n\<close> is the number of binary digits of
  \<open>n\<close>, and \<open>ilog2 x\<close> the exponent of the largest power of 2 that is at most \<open>x\<close>, for
  a positive \<open>x\<close>.
\<close>

function bit_length :: "int \<Rightarrow> int" where
  "bit_length n = (if n \<le> 0 then 0 else 1 + bit_length (n div 2))"
  by pat_completeness auto
termination
  by (relation "measure nat") auto

declare bit_length.simps [simp del]

definition ilog2 :: "real \<Rightarrow> int" where
  "ilog2 x = (if 1 \<le> x then bit_length \<lfloor>x\<rfloor> - 1
              else - bit_length (\<lceil>1 / x\<rceil> - 1))"

definition round_half_even :: "real \<Rightarrow> int" where
  "round_half_even x =
     (let f = \<lfloor>x\<rfloor>; d = x - real_of_int f in
      if d < 1 / 2 then f else if 1 / 2 < d then f + 1 else if even f then f else f + 1)"

definition fl64 :: "real \<Rightarrow> real" where
  "fl64 x = (if x = 0 then 0
             else (let e = ilog2 \<bar>x\<bar> - 52;
                       m = round_half_even (\<bar>x\<bar> / 2 powi e)
                   in sgn x * real_of_int m * 2 powi e))"

text \<open>
  The branch \<open>if annual_rate == 0\<close> of \<open>calculate_mortgage_balance\<close>, operation by
  operation, for a principal that is a float: the product, the quotient and the difference
  are each rounded. The two ints are converted without rounding. Unlike the branch for a
  rate other than 0, this branch has no test of \<open>payments_made >= total_payments\<close>.
\<close>

definition zero_rate_balance_f64 :: "real \<Rightarrow> int \<Rightarrow> int \<Rightarrow> real result" where
  "zero_rate_balance_f64 original_principal term_years payments_made =
     (let total_payments = term_years * 12 in
      if total_payments = 0 then Inl ZeroDivisionError
      else
        (let paid = fl64 (fl64 (original_principal * real_of_int payments_made)
                            / real_of_int total_payments)
         in Inr (max 0 (fl64 (original_principal - paid)))))"

section \<open>Properties (models/property\_classes.py)\<close>

text \<open>
  A row of the real-estate table, as the scenario holds it: every key may be absent. The
  rates are percentages. The key \<open>address\<close> is stored by the class and never read, and is
  left out.
\<close>

record property_data =
  property_name :: "string option"
  mortgage_rate :: "real option"
  mortgage_term_years :: "int option"
  appreciation_rate :: "real option"
  sale_year :: "int option"
  purchase_year :: "int option"
  purchase_price :: "real option"
  down_payment_percent :: "real option"
  is_existing_property :: "bool option"
  current_value :: "real option"
  current_mortgage_balance :: "real option"

text \<open>
  The two subclasses of \<open>Property\<close>. An \<open>ExistingProperty\<close> carries its
  \<open>current_value\<close> and \<open>current_mortgage_balance\<close>; a \<open>FutureProperty\<close> has no attribute
  of its own.
\<close>

datatype property_class = ExistingProperty real real | FutureProperty

text \<open>
  The object built by \<open>Property.__init__\<close>: the attributes with their defaults applied and
  the rates divided by 100. A \<open>sale_year\<close> of \<open>None\<close> is the absent or NaN sale year that
  \<open>pd.isna\<close> recognises.
\<close>

record property =
  property_name :: string
  mortgage_rate :: real
  mortgage_term_years :: int
  appreciation_rate :: real
  sale_year :: "int option"
  purchase_year :: int
  purchase_price :: real
  down_payment_percent :: real
  cls :: property_class

definition create_property :: "property_data \<Rightarrow> property result" where
  "create_property pd =
     rbind (py_item (property_data.property_name pd)) (\<lambda>nm.
       Inr \<lparr>property.property_name = nm,
            property.mortgage_rate = py_get (property_data.mortgage_rate pd) 4.0 / 100,
            property.mortgage_term_years = py_get (property_data.mortgage_term_years pd) 30,
            property.appreciation_rate = py_get (property_data.appreciation_rate pd) 3.0 / 100,
            property.sale_year = property_data.sale_year pd,
            property.purchase_year = py_get (property_data.purchase_year pd) 2020,
            property.purchase_price = py_get (property_data.purchase_price pd) 0,
            property.down_payment_percent = py_get (property_data.down_payment_percent pd) 20.0 / 100,
            cls = (if py_get (is_existing_property pd) False
                   then ExistingProperty (py_get (current_value pd) 0)
                                         (py_get (current_mortgage_balance pd) 0)
                   else FutureProperty)\<rparr>)"

definition is_sold_before_year :: "property \<Rightarrow> int \<Rightarrow> bool" where
  "is_sold_before_year p yr =
     (case property.sale_year p of None \<Rightarrow> False | Some sy \<Rightarrow> yr > sy)"

definition is_sold_in_year :: "property \<Rightarrow> int \<Rightarrow> bool" where
  "is_sold_in_year p yr =
     (case property.sale_year p of None \<Rightarrow> False | Some sy \<Rightarrow> sy = yr)"

text \<open>
  The exponents of both \<open>calculate_value_at_year\<close> methods are ints that are not negative
  (a \<open>max\<close> with 0, and a difference taken after the test \<open>year < purchase_year\<close>), so the
  power cannot raise.
\<close>

definition calculate_value_at_year :: "property \<Rightarrow> int \<Rightarrow> int \<Rightarrow> real" where
  "calculate_value_at_year p yr cur_year =
     (case cls p of
        ExistingProperty cur_value cur_balance \<Rightarrow>
          (let years_from_current = max 0 (yr - cur_year)
           in cur_value * (1 + property.appreciation_rate p) powi years_from_current)
      | FutureProperty \<Rightarrow>
          (if yr < property.purchase_year p then 0
           else (let years_owned = yr - property.purchase_year p
                 in property.purchase_price p * (1 + property.appreciation_rate p) powi years_owned)))"

definition calculate_mortgage_balance_at_year :: "property \<Rightarrow> int \<Rightarrow> int \<Rightarrow> real result" where
  "calculate_mortgage_balance_at_year p yr cur_year =
     (case cls p of
        ExistingProperty cur_value cur_balance \<Rightarrow>
          (if cur_balance \<le> 0 then Inr 0
           else
             (let years_since_current = yr - cur_year in
              if years_since_current \<le> 0 then Inr cur_balance
              else
                (let years_already_paid = cur_year - property.purchase_year p;
                     remaining_term_years = property.mortgage_term_years p - years_already_paid
                 in if remaining_term_years \<le> years_since_current then Inr 0
                    else
                      (let months_additional = years_since_current * 12
                       in calculate_mortgage_balance cur_balance (property.mortgage_rate p)
                            remaining_term_years months_additional))))
      | FutureProperty \<Rightarrow>
          (if yr < property.purchase_year p then Inr 0
           else
             (let years_since_purchase = yr - property.purchase_year p;
                  mortgage_principal = property.purchase_price p * (1 - property.down_payment_percent p)
              in if years_since_purchase \<ge> property.mortgage_term_years p then Inr 0
                 else
                   (let months_since_purchase = years_since_purchase * 12
                    in calculate_mortgage_balance mortgage_principal (property.mortgage_rate p)
                         (property.mortgage_term_years p) months_since_purchase))))"

definition calculate_equity_at_year :: "property \<Rightarrow> int \<Rightarrow> int \<Rightarrow> real result" where
  "calculate_equity_at_year p yr cur_year =
     (if is_sold_before_year p yr then Inr 0
      else
        (let val = calculate_value_at_year p yr cur_year
         in rbind (calculate_mortgage_balance_at_year p yr cur_year) (\<lambda>bal.
              Inr (max 0 (val - bal)))))"

text \<open>The callers never pass \<open>closing_cost_rate\<close>; its default is 0.06.\<close>

definition calculate_sale_proceeds :: "property \<Rightarrow> int \<Rightarrow> int \<Rightarrow> real result" where
  "calculate_sale_proceeds p yr cur_year =
     (if \<not> is_sold_in_year p yr then Inr 0
      else rbind (calculate_equity_at_year p yr cur_year) (\<lambda>equity.
             Inr (equity * (1 - 0.06))))"

text \<open>A method of \<open>FutureProperty\<close> only.\<close>

definition get_down_payment_in_year :: "property \<Rightarrow> int \<Rightarrow> real" where
  "get_down_payment_in_year p yr =
     (if yr = property.purchase_year p
      then property.purchase_price p * property.down_payment_percent p
      else 0)"

section \<open>The real-estate aggregate of a year (models/real\_estate\_v2.py)\<close>

text \<open>
  The result dictionary. Its two inner dictionaries are association lists in insertion
  order; \<open>AList.update\<close> overwrites the value of a key that is there and appends a new key,
  as an assignment to a Python dict does.
\<close>

record re_impact =
  annual_expenses :: real
  annual_income :: real
  one_time_expenses :: real
  property_values :: "(string \<times> real) list"
  equity_values :: "(string \<times> real) list"
  sale_proceeds :: real

text \<open>The mortgage payment of the year for a property that still carries a balance.\<close>

definition monthly_payment_of :: "property \<Rightarrow> int \<Rightarrow> real result" where
  "monthly_payment_of p cur_year =
     (case cls p of
        ExistingProperty cur_value cur_balance \<Rightarrow>
          (if cur_balance > 0 then
             (let years_already_paid = cur_year - property.purchase_year p;
                  remaining_term = max 1 (property.mortgage_term_years p - years_already_paid)
              in calculate_monthly_mortgage_payment cur_balance (property.mortgage_rate p) remaining_term)
           else
             (let mortgage_principal = property.purchase_price p * (1 - property.down_payment_percent p)
              in calculate_monthly_mortgage_payment mortgage_principal (property.mortgage_rate p)
                   (property.mortgage_term_years p)))
      | FutureProperty \<Rightarrow>
          (let mortgage_principal = property.purchase_price p * (1 - property.down_payment_percent p)
           in calculate_monthly_mortgage_payment mortgage_principal (property.mortgage_rate p)
                (property.mortgage_term_years p)))"

text \<open>
  One pass of the loop of \<open>calculate_real_estate_impact_v2\<close> over a row: the result so far
  goes in, the updated result comes out.
\<close>

definition impact_of_property :: "int \<Rightarrow> int \<Rightarrow> re_impact \<Rightarrow> property_data \<Rightarrow> re_impact result" where
  "impact_of_property cur_year yr res pd =
     (if property_data.property_name pd = None then Inr res
      else
        rbind (create_property pd) (\<lambda>p.
        if is_sold_before_year p yr then Inr res
        else
          (let property_value = calculate_value_at_year p yr cur_year in
           rbind (calculate_equity_at_year p yr cur_year) (\<lambda>equity_value.
           rbind (calculate_mortgage_balance_at_year p yr cur_year) (\<lambda>mortgage_balance.
             (let res1 = res\<lparr>property_values :=
                               AList.update (property.property_name p) property_value (property_values res),
                             equity_values :=
                               AList.update (property.property_name p) equity_value (equity_values res)\<rparr>;
                  res2 = (case cls p of
                            FutureProperty \<Rightarrow>
                              res1\<lparr>one_time_expenses :=
                                     one_time_expenses res1 + get_down_payment_in_year p yr\<rparr>
                          | ExistingProperty cur_value cur_balance \<Rightarrow> res1)
              in rbind (if mortgage_balance > 0 \<and> \<not> is_sold_in_year p yr
                        then rbind (monthly_payment_of p cur_year) (\<lambda>monthly_payment.
                               Inr (res2\<lparr>annual_expenses := annual_expenses res2 + monthly_payment * 12\<rparr>))
                        else Inr res2) (\<lambda>res3.
                 if is_sold_in_year p yr
                 then rbind (calculate_sale_proceeds p yr cur_year) (\<lambda>proceeds.
                        Inr (res3\<lparr>sale_proceeds := sale_proceeds res3 + proceeds,
                                  equity_values :=
                                    AList.update (property.property_name p) 0 (equity_values res3)\<rparr>))
                 else Inr res3)))))))"

fun impact_loop :: "int \<Rightarrow> int \<Rightarrow> property_data list \<Rightarrow> re_impact \<Rightarrow> re_impact result" where
  "impact_loop cur_year yr [] res = Inr res"
| "impact_loop cur_year yr (pd # pds) res =
     rbind (impact_of_property cur_year yr res pd) (impact_loop cur_year yr pds)"

text \<open>The parameter \<open>age\<close> is not read by the function.\<close>

definition calculate_real_estate_impact_v2 :: "property_data list \<Rightarrow> int \<Rightarrow> int \<Rightarrow> int \<Rightarrow> re_impact result" where
  "calculate_real_estate_impact_v2 properties cur_year ag yr =
     impact_loop cur_year yr properties
       \<lparr>annual_expenses = 0, annual_income = 0, one_time_expenses = 0,
        property_values = [], equity_values = [], sale_proceeds = 0\<rparr>"

section \<open>The projection cache (services/projection\_cache.py)\<close>

text \<open>
  The cache is one global object. The key \<open>f"re_{year}"\<close> of \<open>_re_impact\<close> is determined by
  the year alone and different years give different keys, so the dictionary is a map from
  years. The key of \<open>_people_ages\<close> is a person's name with a year; neither engine calls
  \<open>get_person_age\<close>, which is left out.
\<close>

record projection_cache =
  people_ages :: "string \<times> int \<rightharpoonup> int option"
  re_impact_of :: "int \<rightharpoonup> re_impact"
  cached_current_year :: "int option"

definition clear :: projection_cache where
  "clear = \<lparr>people_ages = Map.empty, re_impact_of = Map.empty, cached_current_year = None\<rparr>"

definition get_real_estate_impact ::
    "projection_cache \<Rightarrow> property_data list \<Rightarrow> int \<Rightarrow> int \<Rightarrow> int \<Rightarrow> (re_impact \<times> projection_cache) result" where
  "get_real_estate_impact cache properties cur_year ag yr =
     (case re_impact_of cache yr of
        None \<Rightarrow>
          rbind (calculate_real_estate_impact_v2 properties cur_year ag yr) (\<lambda>impact.
            Inr (impact, cache\<lparr>re_impact_of := (re_impact_of cache)(yr \<mapsto> impact)\<rparr>))
      | Some impact \<Rightarrow> Inr (impact, cache))"

text \<open>
  The states that the cache can reach from a given one without a clear: by any number of
  calls of \<open>get_real_estate_impact\<close>, each with arguments of its own (a call that raises
  leaves the cache as it was).
\<close>

inductive reaches :: "projection_cache \<Rightarrow> projection_cache \<Rightarrow> bool" where
  reaches_refl: "reaches c c"
| reaches_call: "reaches c c1 \<Longrightarrow>
     get_real_estate_impact c1 properties cur_year ag yr = Inr (v, c2) \<Longrightarrow> reaches c c2"

section \<open>The scenario (models/projection.py)\<close>

text \<open>
  An income source, a retirement income or a recurring expense: a dictionary with the keys
  \<open>person\<close>, \<open>start_age\<close>, \<open>end_age\<close>, \<open>annual_amount\<close> and \<open>growth_rate\<close> (a
  percentage). The key \<open>name\<close> is read for the debug messages only, which are not
  modelled.
\<close>

record item =
  person :: "string option"
  start_age :: "int option"
  end_age :: "int option"
  annual_amount :: "real option"
  growth_rate :: "real option"

record planned =
  year :: "int option"
  amount :: "real option"
  recurring_years :: "int option"
  repeat_every :: "int option"
  repeat_until_year :: "int option"

text \<open>
  The scenario dictionary. The three top-level keys that \<open>project_scenario\<close> reads with
  \<open>scenario[...]\<close> are plain fields. A collection that is absent and one that is empty
  are treated alike by every test of the source (\<open>'k' in scenario and scenario['k']\<close>, or
  \<open>scenario.get('k', [])\<close>), so each collection is a list. The field \<open>accounts\<close> is the
  older form of the accounts, a dictionary from account names to balances: \<open>None\<close> when
  the key is absent or does not hold a dictionary.
\<close>

record scenario =
  current_age :: int
  max_projection_age :: int
  current_year :: int
  people :: "person list"
  accounts :: "(string \<times> real) list option"
  account_details :: "account_detail list"
  income_sources :: "item list"
  retirement_income :: "item list"
  recurring_expenses :: "item list"
  planned_expenses :: "planned list"
  real_estate :: "property_data list"

text \<open>
  The age that gates an income or expense item: the age of the named person in the year,
  or the age of the projection when the item is joint or names nobody in \<open>people\<close>.
\<close>

definition item_age :: "scenario \<Rightarrow> int \<Rightarrow> int \<Rightarrow> string option \<Rightarrow> int" where
  "item_age sc ag yr who =
     (let item_person = py_get who ''Joint'' in
      if item_person \<noteq> ''Joint'' then
        (case find (\<lambda>p. person.name p = item_person) (people sc) of
           Some person_data \<Rightarrow> person.current_age person_data + (yr - scenario.current_year sc)
         | None \<Rightarrow> ag)
      else ag)"

text \<open>
  What one income source adds to the total. The chained comparison reads \<open>start_age\<close>
  first and reads \<open>end_age\<close> only when the first comparison holds; the exponent is not
  negative inside the window.
\<close>

definition income_amount :: "scenario \<Rightarrow> int \<Rightarrow> int \<Rightarrow> item \<Rightarrow> real result" where
  "income_amount sc ag yr income_src =
     (let income_age = item_age sc ag yr (person income_src) in
      rbind (py_item (start_age income_src)) (\<lambda>first_age.
        if first_age \<le> income_age then
          rbind (py_item (end_age income_src)) (\<lambda>last_age.
            if income_age \<le> last_age then
              (let years_from_start = income_age - first_age in
               rbind (py_item (annual_amount income_src)) (\<lambda>base.
               rbind (py_item (growth_rate income_src)) (\<lambda>growth.
                 Inr (base * (1 + growth / 100) powi years_from_start))))
            else Inr 0)
        else Inr 0))"

fun sum_income :: "scenario \<Rightarrow> int \<Rightarrow> int \<Rightarrow> item list \<Rightarrow> real \<Rightarrow> real result" where
  "sum_income sc ag yr [] total_income = Inr total_income"
| "sum_income sc ag yr (income_src # rest) total_income =
     rbind (income_amount sc ag yr income_src) (\<lambda>amt.
       sum_income sc ag yr rest (total_income + amt))"

definition calculate_total_income ::
    "projection_cache \<Rightarrow> scenario \<Rightarrow> int \<Rightarrow> int \<Rightarrow> (real \<times> projection_cache) result" where
  "calculate_total_income cache sc ag yr =
     rbind (sum_income sc ag yr (income_sources sc) 0) (\<lambda>total1.
     rbind (sum_income sc ag yr (retirement_income sc) total1) (\<lambda>total2.
       if real_estate sc \<noteq> [] then
         rbind (get_real_estate_impact cache (real_estate sc) (scenario.current_year sc) ag yr)
           (\<lambda>(re_imp, cache'). Inr (total2 + annual_income re_imp, cache'))
       else Inr (total2, cache)))"

text \<open>
  What one recurring expense adds to the total; 0 stands for the \<open>continue\<close> of the loop.
  An item with a required field absent, or with \<open>start_age > end_age\<close>, is skipped. With
  the typed fields of this model nothing inside the \<open>try\<close> block can raise, so its handlers
  have no branch here.
\<close>

definition expense_amount :: "scenario \<Rightarrow> int \<Rightarrow> int \<Rightarrow> item \<Rightarrow> real" where
  "expense_amount sc ag yr expense =
     (case (person expense, start_age expense, end_age expense,
            annual_amount expense, growth_rate expense) of
        (Some expense_person, Some first_age, Some last_age, Some base, Some growth_rate_percent) \<Rightarrow>
          (let expense_age = item_age sc ag yr (Some expense_person) in
           if first_age > last_age then 0
           else if first_age \<le> expense_age \<and> expense_age \<le> last_age then
             (let years_from_start = expense_age - first_age;
                  growth = growth_rate_percent / 100;
                  amt = base * (1 + growth) powi years_from_start
              in if amt < 0 then 0 else amt)
           else 0)
      | _ \<Rightarrow> 0)"

fun sum_expenses :: "scenario \<Rightarrow> int \<Rightarrow> int \<Rightarrow> item list \<Rightarrow> real \<Rightarrow> real" where
  "sum_expenses sc ag yr [] total_expenses = total_expenses"
| "sum_expenses sc ag yr (expense # rest) total_expenses =
     sum_expenses sc ag yr rest (total_expenses + expense_amount sc ag yr expense)"

text \<open>
  What one planned expense adds to the total. The remainder by a \<open>repeat_every\<close> of 0
  raises ZeroDivisionError.
\<close>

definition planned_amount :: "int \<Rightarrow> planned \<Rightarrow> real result" where
  "planned_amount yr pl =
     (case (planned.year pl, amount pl) of
        (Some first_year, Some amt) \<Rightarrow>
          (let part1 =
                 (if first_year = yr then amt
                  else (case recurring_years pl of
                          Some n \<Rightarrow> (if n > 1 \<and> first_year \<le> yr \<and> yr < first_year + n then amt else 0)
                        | None \<Rightarrow> 0))
           in case (repeat_every pl, repeat_until_year pl) of
                (Some every, Some until) \<Rightarrow>
                  (let years_since_first = yr - first_year in
                   if years_since_first > 0 then
                     (if every = 0 then Inl ZeroDivisionError
                      else if years_since_first mod every = 0 \<and> yr \<le> until
                           then Inr (part1 + amt) else Inr part1)
                   else Inr part1)
              | _ \<Rightarrow> Inr part1)
      | _ \<Rightarrow> Inr 0)"

fun sum_planned :: "int \<Rightarrow> planned list \<Rightarrow> real \<Rightarrow> real result" where
  "sum_planned yr [] total_expenses = Inr total_expenses"
| "sum_planned yr (pl # rest) total_expenses =
     rbind (planned_amount yr pl) (\<lambda>amt. sum_planned yr rest (total_expenses + amt))"

definition calculate_total_expenses ::
    "projection_cache \<Rightarrow> scenario \<Rightarrow> int \<Rightarrow> int \<Rightarrow> (real \<times> projection_cache) result" where
  "calculate_total_expenses cache sc ag yr =
     (let total1 = sum_expenses sc ag yr (recurring_expenses sc) 0 in
      rbind (sum_planned yr (planned_expenses sc) total1) (\<lambda>total2.
        if real_estate sc \<noteq> [] then
          rbind (get_real_estate_impact cache (real_estate sc) (scenario.current_year sc) ag yr)
            (\<lambda>(re_imp, cache').
               Inr (total2 + annual_expenses re_imp + one_time_expenses re_imp, cache'))
        else Inr (total2, cache)))"

section \<open>The deterministic engine (models/projection.py)\<close>

record year_record =
  age :: int
  year :: int
  income :: real
  expenses :: real
  net_cashflow :: real
  real_estate_sales :: real
  portfolio_contribution :: real
  portfolio_return_amount :: real
  portfolio_balance :: real
  real_estate_equity :: real
  total_net_worth :: real

text \<open>
  The dictionary \<open>account_balances\<close>, in insertion order. The engines assign
  to the balance of each entry in turn; here each pass returns the new dictionary.
\<close>

type_synonym account_balances = "(string \<times> account_data) list"

definition initial_account_balances :: "scenario \<Rightarrow> account_balances" where
  "initial_account_balances sc =
     (case accounts sc of
        Some named_balances \<Rightarrow>
          fold (\<lambda>(account_name, bal) acc.
                  AList.update account_name
                    \<lparr>balance = bal, aggressive_rate = Some 0.05, conservative_rate = Some 0.05,
                     transition_start_age = Some 50, transition_end_age = Some 65,
                     account_owner = ''Joint'', growth_strategy = None, account_type = None\<rparr> acc)
               named_balances []
      | None \<Rightarrow>
          fold (\<lambda>account acc.
                  AList.update
                    (account_detail.account_type account @ ''_'' @ account_detail.account_owner account)
                    \<lparr>balance = current_balance account,
                     aggressive_rate = Some (py_get (account_detail.aggressive_rate account) 0.05),
                     conservative_rate = Some (py_get (account_detail.conservative_rate account) 0.05),
                     transition_start_age = Some (py_get (account_detail.transition_start_age account) 50),
                     transition_end_age = Some (py_get (account_detail.transition_end_age account) 65),
                     account_owner = account_detail.account_owner account,
                     growth_strategy = None, account_type = None\<rparr> acc)
               (account_details sc) [])"

text \<open>The age of the owner of an account in the year.\<close>

definition owner_age_of :: "person list \<Rightarrow> int \<Rightarrow> int \<Rightarrow> int \<Rightarrow> account_data \<Rightarrow> int" where
  "owner_age_of people_data cur_year ag yr account =
     (let owner_name = account_owner account in
      if owner_name = ''Joint'' then ag
      else (case find (\<lambda>p. person.name p = owner_name) people_data of
              Some owner \<Rightarrow> person.current_age owner + (yr - cur_year)
            | None \<Rightarrow> ag))"

text \<open>
  The growth loop of a year, with its two running totals \<open>total_return_amount\<close> and
  \<open>total_portfolio_balance\<close>.
\<close>

fun grow_accounts ::
    "person list \<Rightarrow> int \<Rightarrow> int \<Rightarrow> int \<Rightarrow> account_balances \<Rightarrow> real \<Rightarrow> real
       \<Rightarrow> account_balances \<times> real \<times> real" where
  "grow_accounts people_data cur_year ag yr [] total_return_amount total_portfolio_balance =
     ([], total_return_amount, total_portfolio_balance)"
| "grow_accounts people_data cur_year ag yr ((account_key, account) # rest)
       total_return_amount total_portfolio_balance =
     (let owner_age = owner_age_of people_data cur_year ag yr account;
          rate = calculate_account_growth_rate account (real_of_int owner_age) people_data;
          account_return = balance account * rate;
          account' = account\<lparr>balance := balance account + account_return\<rparr>
      in case grow_accounts people_data cur_year ag yr rest
                (total_return_amount + account_return)
                (total_portfolio_balance + balance account') of
           (rest', total_return_amount', total_portfolio_balance') \<Rightarrow>
             ((account_key, account') # rest', total_return_amount', total_portfolio_balance'))"

text \<open>The new balance of one account in the pro-rata distribution, floored at 0.\<close>

definition contribute :: "real \<Rightarrow> real \<Rightarrow> account_data \<Rightarrow> account_data" where
  "contribute net total_portfolio_balance account =
     (let account_proportion = balance account / total_portfolio_balance;
          account_contribution = net * account_proportion;
          new_balance = balance account + account_contribution
      in account\<lparr>balance := (if new_balance < 0 then 0 else new_balance)\<rparr>)"

text \<open>
  The distribution of the net cashflow of a year over the accounts: pro rata when the
  total after growth is positive; otherwise a positive cashflow becomes the balance of the
  first account, and nothing else changes.
\<close>

definition distribute_cashflow :: "real \<Rightarrow> real \<Rightarrow> account_balances \<Rightarrow> account_balances" where
  "distribute_cashflow net total_portfolio_balance account_balances =
     (if net \<noteq> 0 then
        (if total_portfolio_balance > 0 then
           map (\<lambda>(account_key, account).
                  (account_key, contribute net total_portfolio_balance account)) account_balances
         else if net > 0 then
           (case account_balances of
              [] \<Rightarrow> []
            | (account_key, first_account) # rest \<Rightarrow>
                (account_key, first_account\<lparr>balance := max 0 net\<rparr>) # rest)
         else account_balances)
      else account_balances)"

definition total_balance :: "account_balances \<Rightarrow> real" where
  "total_balance account_balances = sum_list (map (\<lambda>(account_key, account). balance account) account_balances)"

text \<open>
  What the engine carries from one year to the next: the cache, the accounts, and the
  variable \<open>real_estate_equity\<close>.
\<close>

type_synonym engine_state = "projection_cache \<times> account_balances \<times> real"

text \<open>
  The real-estate figures of a year: the cash from sales, and the equity, which keeps its
  previous value when the scenario has no real estate.
\<close>

definition real_estate_of_year ::
    "projection_cache \<Rightarrow> scenario \<Rightarrow> int \<Rightarrow> int \<Rightarrow> real \<Rightarrow> (real \<times> real \<times> projection_cache) result" where
  "real_estate_of_year cache sc ag yr re_equity =
     (if real_estate sc \<noteq> [] then
        rbind (get_real_estate_impact cache (real_estate sc) (scenario.current_year sc) ag yr)
          (\<lambda>(re_imp, cache').
             Inr (sale_proceeds re_imp, sum_list (map snd (equity_values re_imp)), cache'))
      else Inr (0, re_equity, cache))"

text \<open>One pass of the loop over the ages of \<open>project_scenario\<close>.\<close>

definition project_year :: "scenario \<Rightarrow> engine_state \<Rightarrow> int \<Rightarrow> (year_record \<times> engine_state) result" where
  "project_year sc st ag =
     (case st of (cache, account_balances, re_equity) \<Rightarrow>
      (let yr = scenario.current_year sc + (ag - scenario.current_age sc) in
       rbind (calculate_total_income cache sc ag yr) (\<lambda>(inc, cache1).
       rbind (calculate_total_expenses cache1 sc ag yr) (\<lambda>(exps, cache2).
       rbind (real_estate_of_year cache2 sc ag yr re_equity)
         (\<lambda>(real_estate_cash_from_sales, re_equity', cache3).
          (let net = inc - exps + real_estate_cash_from_sales in
           case grow_accounts (people sc) (scenario.current_year sc) ag yr account_balances 0 0 of
             (grown, total_return_amount, total_portfolio_balance) \<Rightarrow>
               (let distributed = distribute_cashflow net total_portfolio_balance grown;
                    final_balance = total_balance distributed
                in Inr (\<lparr>age = ag, year = yr, income = inc, expenses = exps,
                         net_cashflow = net - real_estate_cash_from_sales,
                         real_estate_sales = real_estate_cash_from_sales,
                         portfolio_contribution = net,
                         portfolio_return_amount = total_return_amount,
                         portfolio_balance = final_balance,
                         real_estate_equity = re_equity',
                         total_net_worth = final_balance + re_equity'\<rparr>,
                        (cache3, distributed, re_equity')))))))))"

fun project_loop ::
    "scenario \<Rightarrow> int list \<Rightarrow> engine_state \<Rightarrow> year_record list
       \<Rightarrow> (year_record list \<times> engine_state) result" where
  "project_loop sc [] st projections = Inr (projections, st)"
| "project_loop sc (ag # ages) st projections =
     rbind (project_year sc st ag) (\<lambda>(rec, st').
       project_loop sc ages st' (projections @ [rec]))"

text \<open>
  \<open>project_scenario\<close> clears the cache, builds the accounts and runs the loop over
  \<open>range(current_age, max_age + 1)\<close>. A raise in any year aborts the run: there is no
  partial result.
\<close>

definition project_scenario :: "scenario \<Rightarrow> year_record list result" where
  "project_scenario sc =
     rbind (project_loop sc [scenario.current_age sc..max_projection_age sc]
              (clear, initial_account_balances sc, 0) [])
       (\<lambda>(projections, st). Inr projections)"

section \<open>The account loop of a year over floats that may be NaN (models/projection.py)\<close>

text \<open>
  The same lines of \<open>project_scenario\<close> as \<open>grow_accounts\<close>, \<open>distribute_cashflow\<close> and
  \<open>total_balance\<close> above (the growth loop, the distribution of the net cashflow and the
  final sum), and \<open>calculate_account_growth_rate\<close>, read over \<open>pyfloat\<close>, so that an
  account with a blank transition age can be followed through a year. The net cashflow is
  a number.
\<close>

definition calculate_account_growth_rate_nan ::
    "float_account \<Rightarrow> pyfloat \<Rightarrow> person list \<Rightarrow> pyfloat result" where
  "calculate_account_growth_rate_nan account owner_age people_data =
     (let aggressive = float_account.aggressive_rate account;
          conservative = float_account.conservative_rate account;
          transition_start = float_account.transition_start_age account;
          transition_end = float_account.transition_end_age account
      in if fle owner_age transition_start then fdiv aggressive (Num 100)
         else if fle transition_end owner_age then fdiv conservative (Num 100)
         else
           rbind (fdiv (fsub owner_age transition_start) (fsub transition_end transition_start))
             (\<lambda>transition_progress.
                fdiv (fadd aggressive (fmul (fsub conservative aggressive) transition_progress))
                  (Num 100)))"

definition owner_age_nan :: "person list \<Rightarrow> int \<Rightarrow> int \<Rightarrow> int \<Rightarrow> float_account \<Rightarrow> int" where
  "owner_age_nan people_data cur_year ag yr account =
     (let owner_name = float_account.account_owner account in
      if owner_name = ''Joint'' then ag
      else (case find (\<lambda>p. person.name p = owner_name) people_data of
              Some owner \<Rightarrow> person.current_age owner + (yr - cur_year)
            | None \<Rightarrow> ag))"

fun grow_accounts_nan ::
    "person list \<Rightarrow> int \<Rightarrow> int \<Rightarrow> int \<Rightarrow> (string \<times> float_account) list \<Rightarrow> pyfloat \<Rightarrow> pyfloat
       \<Rightarrow> ((string \<times> float_account) list \<times> pyfloat \<times> pyfloat) result" where
  "grow_accounts_nan people_data cur_year ag yr [] total_return_amount total_portfolio_balance =
     Inr ([], total_return_amount, total_portfolio_balance)"
| "grow_accounts_nan people_data cur_year ag yr ((account_key, account) # rest)
       total_return_amount total_portfolio_balance =
     (let owner_age = owner_age_nan people_data cur_year ag yr account in
      rbind (calculate_account_growth_rate_nan account (Num (real_of_int owner_age)) people_data)
        (\<lambda>rate.
        (let account_return = fmul (float_account.balance account) rate;
             account' = account\<lparr>float_account.balance :=
                                   fadd (float_account.balance account) account_return\<rparr>
         in rbind (grow_accounts_nan people_data cur_year ag yr rest
                     (fadd total_return_amount account_return)
                     (fadd total_portfolio_balance (float_account.balance account')))
              (\<lambda>(rest', total_return_amount', total_portfolio_balance').
                 Inr ((account_key, account') # rest',
                      total_return_amount', total_portfolio_balance')))))"

definition contribute_nan :: "real \<Rightarrow> pyfloat \<Rightarrow> float_account \<Rightarrow> float_account result" where
  "contribute_nan net total_portfolio_balance account =
     rbind (fdiv (float_account.balance account) total_portfolio_balance) (\<lambda>account_proportion.
       (let account_contribution = fmul (Num net) account_proportion;
            new_balance = fadd (float_account.balance account) account_contribution
        in Inr (account\<lparr>float_account.balance :=
                           (if flt new_balance (Num 0) then Num 0 else new_balance)\<rparr>)))"

fun contribute_all_nan ::
    "real \<Rightarrow> pyfloat \<Rightarrow> (string \<times> float_account) list \<Rightarrow> (string \<times> float_account) list result" where
  "contribute_all_nan net total_portfolio_balance [] = Inr []"
| "contribute_all_nan net total_portfolio_balance ((account_key, account) # rest) =
     rbind (contribute_nan net total_portfolio_balance account) (\<lambda>account'.
     rbind (contribute_all_nan net total_portfolio_balance rest) (\<lambda>rest'.
       Inr ((account_key, account') # rest')))"

definition distribute_cashflow_nan ::
    "real \<Rightarrow> pyfloat \<Rightarrow> (string \<times> float_account) list \<Rightarrow> (string \<times> float_account) list result" where
  "distribute_cashflow_nan net total_portfolio_balance account_balances =
     (if net \<noteq> 0 then
        (if flt (Num 0) total_portfolio_balance then
           contribute_all_nan net total_portfolio_balance account_balances
         else if net > 0 then
           (case account_balances of
              [] \<Rightarrow> Inr []
            | (account_key, first_account) # rest \<Rightarrow>
                Inr ((account_key, first_account\<lparr>float_account.balance := Num (max 0 net)\<rparr>) # rest))
         else Inr account_balances)
      else Inr account_balances)"

text \<open>\<open>sum\<close> adds from the left, starting with 0.\<close>

definition total_balance_nan :: "(string \<times> float_account) list \<Rightarrow> pyfloat" where
  "total_balance_nan account_balances =
     foldl fadd (Num 0) (map (\<lambda>(account_key, account). float_account.balance account) account_balances)"

text \<open>
  The accounts of a year from the growth loop to the final sum: the accounts after the
  year, \<open>total_return_amount\<close> and the \<open>portfolio_balance\<close> of the record.
\<close>

definition year_accounts_nan ::
    "person list \<Rightarrow> int \<Rightarrow> int \<Rightarrow> int \<Rightarrow> real \<Rightarrow> (string \<times> float_account) list
       \<Rightarrow> ((string \<times> float_account) list \<times> pyfloat \<times> pyfloat) result" where
  "year_accounts_nan people_data cur_year ag yr net account_balances =
     rbind (grow_accounts_nan people_data cur_year ag yr account_balances (Num 0) (Num 0))
       (\<lambda>(grown, total_return_amount, total_portfolio_balance).
          rbind (distribute_cashflow_nan net total_portfolio_balance grown) (\<lambda>distributed.
            Inr (distributed, total_return_amount, total_balance_nan distributed)))"

text \<open>An account of the real-valued model as an account with float values.\<close>

definition as_float_account :: "account_data \<Rightarrow> float_account" where
  "as_float_account a =
     \<lparr>float_account.balance = Num (balance a),
      float_account.aggressive_rate = Num (py_get (aggressive_rate a) 6.0),
      float_account.conservative_rate = Num (py_get (conservative_rate a) 6.0),
      float_account.transition_start_age = Num (real_of_int (py_get (transition_start_age a) 50)),
      float_account.transition_end_age = Num (real_of_int (py_get (transition_end_age a) 65)),
      float_account.account_owner = account_owner a\<rparr>"


text \<open>The property of an account that the proofs of the balance invariant carry along.\<close>

definition acct_ok :: "account_data \<Rightarrow> bool" where
  "acct_ok a = (0 \<le> balance a \<and> - 100 \<le> py_get (aggressive_rate a) 6.0
                 \<and> - 100 \<le> py_get (conservative_rate a) 6.0)"

section \<open>The Monte Carlo engine (models/monte\_carlo.py)\<close>

definition get_current_account_return_rate :: "account_data \<Rightarrow> real" where
  "get_current_account_return_rate account = py_get (aggressive_rate account) 7.0"

definition get_account_volatility :: "account_data \<Rightarrow> real option \<Rightarrow> real" where
  "get_account_volatility account deterministic_rate =
     (case deterministic_rate of
        Some r \<Rightarrow> calculate_volatility_from_return r
      | None \<Rightarrow> calculate_volatility_from_return (get_current_account_return_rate account))"

text \<open>
  The random numbers come from numpy, outside the repository. The parameter \<open>z\<close> stands
  for what the generator delivers in one call of \<open>generate_correlated_returns\<close>: with one
  account the standard normal deviate behind \<open>np.random.normal(mean, vol)\<close>, which is
  \<open>mean + vol * z 0\<close>; with several accounts the vector \<open>chol @ uncorrelated\<close>, the
  independent deviates after the Cholesky factor of the correlation matrix. The engine
  calls the function with at least one account and with lists of one length; the index
  \<open>[0]\<close> of an empty list raises IndexError.
\<close>

definition generate_correlated_returns ::
    "(nat \<Rightarrow> real) \<Rightarrow> account_data list \<Rightarrow> real list \<Rightarrow> real list \<Rightarrow> real list result" where
  "generate_correlated_returns z account_objects expected_returns volatilities =
     (let n_accounts = length account_objects in
      if n_accounts = 1 then
        (case (expected_returns, volatilities) of
           (expected # es, vol # vs) \<Rightarrow> Inr [expected + vol * z 0]
         | _ \<Rightarrow> Inl IndexError)
      else
        Inr (map (\<lambda>(i, (expected, vol)). expected + vol * z i)
               (enumerate 0 (zip expected_returns volatilities))))"

record mc_year_record = year_record +
  simulation_id :: int

definition mc_initial_account_balances :: "scenario \<Rightarrow> account_balances" where
  "mc_initial_account_balances sc =
     (case accounts sc of
        Some named_balances \<Rightarrow>
          fold (\<lambda>(account_name, bal) acc.
                  AList.update account_name
                    \<lparr>balance = bal, aggressive_rate = Some 0.05, conservative_rate = None,
                     transition_start_age = None, transition_end_age = None,
                     account_owner = ''Joint'', growth_strategy = Some ''Fixed'',
                     account_type = Some ''Taxable''\<rparr> acc)
               named_balances []
      | None \<Rightarrow>
          fold (\<lambda>account acc.
                  AList.update
                    (account_detail.account_type account @ ''_'' @ account_detail.account_owner account)
                    \<lparr>balance = current_balance account,
                     aggressive_rate = Some (py_get (account_detail.aggressive_rate account) 0.05),
                     conservative_rate = Some (py_get (account_detail.conservative_rate account) 0.05),
                     transition_start_age = Some (py_get (account_detail.transition_start_age account) 50),
                     transition_end_age = Some (py_get (account_detail.transition_end_age account) 65),
                     account_owner = account_detail.account_owner account,
                     growth_strategy = Some (py_get (account_detail.growth_strategy account) ''Fixed''),
                     account_type = Some (account_detail.account_type account)\<rparr> acc)
               (account_details sc) [])"

text \<open>
  The first loop over the accounts of a year: the deterministic rate of each account, as
  in \<open>project_scenario\<close>, and its volatility. The volatility is the method
  \<open>get_account_volatility\<close> of the engine; it is a parameter here, so that a run with
  every volatility forced to 0 can be stated.
\<close>

definition deterministic_rate_of :: "person list \<Rightarrow> int \<Rightarrow> int \<Rightarrow> int \<Rightarrow> account_data \<Rightarrow> real" where
  "deterministic_rate_of people_data cur_year ag yr account =
     (let owner_age = owner_age_of people_data cur_year ag yr account
      in calculate_account_growth_rate account (real_of_int owner_age) people_data)"

text \<open>
  The second loop: the balance of each account grows by its stochastic rate,
  \<open>stochastic_returns[i]\<close>.
\<close>

fun mc_grow_accounts ::
    "account_balances \<Rightarrow> real list \<Rightarrow> real \<Rightarrow> real
       \<Rightarrow> (account_balances \<times> real \<times> real) result" where
  "mc_grow_accounts [] stochastic_returns total_return_amount total_portfolio_balance =
     Inr ([], total_return_amount, total_portfolio_balance)"
| "mc_grow_accounts ((account_key, account) # rest) [] total_return_amount total_portfolio_balance =
     Inl IndexError"
| "mc_grow_accounts ((account_key, account) # rest) (stochastic_rate # rates)
       total_return_amount total_portfolio_balance =
     (let account_return = balance account * stochastic_rate;
          account' = account\<lparr>balance := balance account + account_return\<rparr>
      in rbind (mc_grow_accounts rest rates
                 (total_return_amount + account_return)
                 (total_portfolio_balance + balance account'))
           (\<lambda>(rest', total_return_amount', total_portfolio_balance').
              Inr ((account_key, account') # rest', total_return_amount', total_portfolio_balance')))"

definition mc_growth ::
    "(account_data \<Rightarrow> real option \<Rightarrow> real) \<Rightarrow> (nat \<Rightarrow> real) \<Rightarrow> person list \<Rightarrow> int \<Rightarrow> int \<Rightarrow> int
       \<Rightarrow> account_balances \<Rightarrow> (account_balances \<times> real \<times> real) result" where
  "mc_growth volatility_of z people_data cur_year ag yr account_balances =
     (let account_objects = map snd account_balances;
          deterministic_rates = map (deterministic_rate_of people_data cur_year ag yr) account_objects;
          volatilities =
            map (\<lambda>account. volatility_of account
                             (Some (deterministic_rate_of people_data cur_year ag yr account)))
              account_objects
      in if account_balances \<noteq> [] then
           rbind (generate_correlated_returns z account_objects deterministic_rates volatilities)
             (\<lambda>stochastic_returns. mc_grow_accounts account_balances stochastic_returns 0 0)
         else Inr (account_balances, 0, 0))"

text \<open>One pass of the loop over the ages of \<open>run_single_simulation\<close>.\<close>

definition mc_year ::
    "(account_data \<Rightarrow> real option \<Rightarrow> real) \<Rightarrow> (nat \<Rightarrow> real) \<Rightarrow> int \<Rightarrow> scenario \<Rightarrow> engine_state \<Rightarrow> int
       \<Rightarrow> (mc_year_record \<times> engine_state) result" where
  "mc_year volatility_of z sim_id sc st ag =
     (case st of (cache, account_balances, re_equity) \<Rightarrow>
      (let yr = scenario.current_year sc + (ag - scenario.current_age sc) in
       rbind (calculate_total_income cache sc ag yr) (\<lambda>(inc, cache1).
       rbind (calculate_total_expenses cache1 sc ag yr) (\<lambda>(exps, cache2).
       rbind (real_estate_of_year cache2 sc ag yr re_equity)
         (\<lambda>(real_estate_cash_from_sales, re_equity', cache3).
          (let net = inc - exps + real_estate_cash_from_sales in
           rbind (mc_growth volatility_of z (people sc) (scenario.current_year sc) ag yr account_balances)
             (\<lambda>(grown, total_return_amount, total_portfolio_balance).
               (let distributed = distribute_cashflow net total_portfolio_balance grown;
                    final_balance = total_balance distributed
                in Inr (\<lparr>age = ag, year = yr, income = inc, expenses = exps,
                         net_cashflow = net - real_estate_cash_from_sales,
                         real_estate_sales = real_estate_cash_from_sales,
                         portfolio_contribution = net,
                         portfolio_return_amount = total_return_amount,
                         portfolio_balance = final_balance,
                         real_estate_equity = re_equity',
                         total_net_worth = final_balance + re_equity',
                         simulation_id = sim_id\<rparr>,
                        (cache3, distributed, re_equity'))))))))))"

text \<open>
  The loop over the ages. The generator is seeded once, before the loop, with
  \<open>simulation_id * 1000\<close>; \<open>normal seed n\<close> is what the seeded generator delivers in its
  \<open>n\<close>-th call, one call for each year in which there are accounts.
\<close>

fun mc_loop ::
    "(account_data \<Rightarrow> real option \<Rightarrow> real) \<Rightarrow> (nat \<Rightarrow> nat \<Rightarrow> real) \<Rightarrow> int \<Rightarrow> scenario \<Rightarrow> int list
       \<Rightarrow> nat \<Rightarrow> engine_state \<Rightarrow> mc_year_record list
       \<Rightarrow> (mc_year_record list \<times> engine_state) result" where
  "mc_loop volatility_of draws sim_id sc [] n st projections = Inr (projections, st)"
| "mc_loop volatility_of draws sim_id sc (ag # ages) n st projections =
     rbind (mc_year volatility_of (draws n) sim_id sc st ag) (\<lambda>(rec, st').
       mc_loop volatility_of draws sim_id sc ages (Suc n) st' (projections @ [rec]))"

text \<open>
  \<open>run_single_simulation\<close> with the volatility method and the generator as parameters;
  \<open>normal seed\<close> is the stream of the generator seeded with \<open>seed\<close>. The deep copy of the
  scenario has no counterpart here, since nothing is mutated in place.
\<close>

definition run_single_simulation_with ::
    "(account_data \<Rightarrow> real option \<Rightarrow> real) \<Rightarrow> (int \<Rightarrow> nat \<Rightarrow> nat \<Rightarrow> real) \<Rightarrow> scenario \<Rightarrow> int
       \<Rightarrow> mc_year_record list result" where
  "run_single_simulation_with volatility_of normal sc sim_id =
     rbind (mc_loop volatility_of (normal (sim_id * 1000)) sim_id sc
              [scenario.current_age sc..max_projection_age sc] 0
              (clear, mc_initial_account_balances sc, 0) [])
       (\<lambda>(projections, st). Inr projections)"

definition run_single_simulation ::
    "(int \<Rightarrow> nat \<Rightarrow> nat \<Rightarrow> real) \<Rightarrow> scenario \<Rightarrow> int \<Rightarrow> mc_year_record list result" where
  "run_single_simulation normal sc sim_id =
     run_single_simulation_with get_account_volatility normal sc sim_id"

text \<open>
  The accounts of the Monte Carlo engine as the deterministic engine holds them: without
  the two keys that only the Monte Carlo engine stores. Used to compare the two engines.
\<close>

definition det_fields :: "account_data \<Rightarrow> account_data" where
  "det_fields a = a\<lparr>growth_strategy := None, account_type := None\<rparr>"

definition det_view :: "account_balances \<Rightarrow> account_balances" where
  "det_view accts = map (\<lambda>(k, a). (k, det_fields a)) accts"

text \<open>
  A cache is coherent with a scenario when every aggregate it holds is the one that
  \<open>calculate_real_estate_impact_v2\<close> computes for the real estate of the scenario in that
  year. Used to relate what a run reads from its cache to the functions themselves.
\<close>

definition coherent :: "scenario \<Rightarrow> projection_cache \<Rightarrow> bool" where
  "coherent sc c = (\<forall>yr v. re_impact_of c yr = Some v \<longrightarrow>
      calculate_real_estate_impact_v2 (real_estate sc) (scenario.current_year sc) 0 yr = Inr v)"


text \<open>
  What ties a year record to its year: the year belongs to the age, the income and the
  expenses are the totals of \<open>calculate_total_income\<close> and \<open>calculate_total_expenses\<close> for
  that age and year, the cash from sales is the \<open>sale_proceeds\<close> of the aggregate of the
  year (0 without real estate), and the two cashflow fields are built from these.
\<close>

definition year_fields :: "scenario \<Rightarrow> year_record \<Rightarrow> bool" where
  "year_fields sc r =
     (year r = scenario.current_year sc + (age r - scenario.current_age sc)
      \<and> (\<exists>c. calculate_total_income clear sc (age r) (year r) = Inr (income r, c))
      \<and> (\<exists>c. calculate_total_expenses clear sc (age r) (year r) = Inr (expenses r, c))
      \<and> Inr (real_estate_sales r) =
           (if real_estate sc = [] then Inr 0
            else map_sum id sale_proceeds
                   (calculate_real_estate_impact_v2 (real_estate sc)
                      (scenario.current_year sc) (age r) (year r)))
      \<and> net_cashflow r = income r - expenses r
      \<and> portfolio_contribution r = income r - expenses r + real_estate_sales r)"

section \<open>Theorems\<close>

subsection \<open>Helper facts\<close>

lemma rbind_Inr [simp]: "rbind (Inr v) f = f v"
  by (simp add: rbind_def)

lemma rbind_Inl [simp]: "rbind (Inl e) f = Inl e"
  by (simp add: rbind_def)

lemma powi_gt_one:
  fixes x :: real
  assumes "1 < x" "0 < n"
  shows "1 < x powi n"
proof -
  have "x powi n = x ^ nat n" using assms by (simp add: power_int_def)
  moreover have "1 < x ^ nat n" using assms by simp
  ultimately show ?thesis by simp
qed

subsection \<open>Volatility as a function of the mean return\<close>

text \<open>
  Claim C6. The volatility assumed for a mean return is meant to rise with the return,
  piecewise linearly with breakpoints at 4\%, 5.5\%, 7\% and 8\%. The segments that start at
  4\% and at 5.5\% use the slope 0.027 over a width of 1.5 points, so each of them ends
  0.0005 above the value at which the next segment starts: the function drops at 5.5\% and
  at 7\%. At the mean returns 5.499\% and 5.51\% the lower return is given the higher
  volatility, so the function is not monotonically non-decreasing.
\<close>

theorem volatility_drops_at_breakpoint:
  "(0.05499::real) \<le> 0.0551
    \<and> calculate_volatility_from_return 0.05499 = 0.080473
    \<and> calculate_volatility_from_return 0.0551 = 0.08027
    \<and> calculate_volatility_from_return 0.0551 < calculate_volatility_from_return 0.05499"
  by (simp add: calculate_volatility_from_return_def)

subsection \<open>Growth rate of an account\<close>

lemma growth_clamp:
  assumes "py_get (transition_start_age account) 50 < py_get (transition_end_age account) 65"
  shows "calculate_account_growth_rate account owner_age people_data =
     (py_get (aggressive_rate account) 6.0 +
       (py_get (conservative_rate account) 6.0 - py_get (aggressive_rate account) 6.0) *
         max 0 (min 1 ((owner_age - real_of_int (py_get (transition_start_age account) 50)) /
           (real_of_int (py_get (transition_end_age account) 65)
              - real_of_int (py_get (transition_start_age account) 50))))) / 100"
proof -
  let ?s = "real_of_int (py_get (transition_start_age account) 50)"
  let ?e = "real_of_int (py_get (transition_end_age account) 65)"
  have se: "?s < ?e" using assms by simp
  then have d: "0 < ?e - ?s" by simp
  show ?thesis
  proof (cases "owner_age \<le> ?s")
    case True
    then have "(owner_age - ?s) / (?e - ?s) \<le> 0" using d by (simp add: divide_le_0_iff)
    then have "max 0 (min 1 ((owner_age - ?s) / (?e - ?s))) = 0" by simp
    then show ?thesis using True by (simp add: calculate_account_growth_rate_def Let_def)
  next
    case False
    note f = False
    show ?thesis
    proof (cases "owner_age \<ge> ?e")
      case True
      then have "(owner_age - ?s) / (?e - ?s) \<ge> 1" using d by (simp add: le_divide_eq)
      then have "max 0 (min 1 ((owner_age - ?s) / (?e - ?s))) = 1" by simp
      then show ?thesis using True f by (simp add: calculate_account_growth_rate_def Let_def)
    next
      case False
      then have "(owner_age - ?s) / (?e - ?s) < 1" "0 < (owner_age - ?s) / (?e - ?s)"
        using d f by (simp_all add: divide_less_eq)
      then have "max 0 (min 1 ((owner_age - ?s) / (?e - ?s))) = (owner_age - ?s) / (?e - ?s)"
        by simp
      then show ?thesis using False f by (simp add: calculate_account_growth_rate_def Let_def)
    qed
  qed
qed

lemma growth_cont:
  assumes "py_get (transition_start_age account) 50 < py_get (transition_end_age account) 65"
  shows "continuous_on UNIV (\<lambda>owner_age. calculate_account_growth_rate account owner_age people_data)"
  unfolding growth_clamp[OF assms]
  by (intro continuous_intros) (use assms in auto)

text \<open>
  Claim C3. For an account whose transition window is not empty (start before end), with
  \<open>a\<close>, \<open>c\<close>, \<open>s\<close>, \<open>e\<close> the aggressive rate, the conservative rate and the two ends of
  the window as the function reads them (the stored value, or the default of the function
  when the key is absent): the rate is \<open>a / 100\<close> at every age up to \<open>s\<close>, \<open>c / 100\<close> at
  every age from \<open>e\<close> on, the linear interpolation by the fractional position of the age
  strictly inside the window, a continuous function of the age, and monotonic: it does not
  decrease with age when \<open>a \<le> c\<close> and does not increase with age when \<open>c \<le> a\<close>.
\<close>

theorem growth_rate_piecewise_linear:
  fixes account :: account_data and people_data :: "person list"
  assumes A: "py_get (aggressive_rate account) 6.0 = a"
      and C: "py_get (conservative_rate account) 6.0 = c"
      and S: "py_get (transition_start_age account) 50 = s"
      and E: "py_get (transition_end_age account) 65 = e"
      and SE: "s < e"
  shows "(\<forall>x. x \<le> real_of_int s \<longrightarrow> calculate_account_growth_rate account x people_data = a / 100)
     \<and> (\<forall>x. real_of_int e \<le> x \<longrightarrow> calculate_account_growth_rate account x people_data = c / 100)
     \<and> (\<forall>x. real_of_int s < x \<and> x < real_of_int e \<longrightarrow>
            calculate_account_growth_rate account x people_data =
              (a + (c - a) * ((x - real_of_int s) / (real_of_int e - real_of_int s))) / 100)
     \<and> continuous_on UNIV (\<lambda>x. calculate_account_growth_rate account x people_data)
     \<and> (a \<le> c \<longrightarrow> (\<forall>x y. x \<le> y \<longrightarrow>
            calculate_account_growth_rate account x people_data
              \<le> calculate_account_growth_rate account y people_data))
     \<and> (c \<le> a \<longrightarrow> (\<forall>x y. x \<le> y \<longrightarrow>
            calculate_account_growth_rate account y people_data
              \<le> calculate_account_growth_rate account x people_data))"
proof -
  have lt: "py_get (transition_start_age account) 50 < py_get (transition_end_age account) 65"
    using S E SE by simp
  have d: "0 < real_of_int e - real_of_int s" using SE by simp
  define cl where "cl = (\<lambda>x. max 0 (min 1 ((x - real_of_int s) / (real_of_int e - real_of_int s))))"
  have eq: "calculate_account_growth_rate account x people_data = (a + (c - a) * cl x) / 100" for x
    using growth_clamp[OF lt, of x people_data] A C S E by (simp add: cl_def)
  have clm: "cl x \<le> cl y" if "x \<le> y" for x y
  proof -
    have "(x - real_of_int s) / (real_of_int e - real_of_int s)
        \<le> (y - real_of_int s) / (real_of_int e - real_of_int s)"
      using that d by (simp add: divide_right_mono)
    then show ?thesis unfolding cl_def by (simp add: max.coboundedI2 min.coboundedI2)
  qed
  have p1: "\<forall>x. x \<le> real_of_int s \<longrightarrow> calculate_account_growth_rate account x people_data = a / 100"
    using A S by (simp add: calculate_account_growth_rate_def Let_def)
  have p2: "\<forall>x. real_of_int e \<le> x \<longrightarrow> calculate_account_growth_rate account x people_data = c / 100"
    using A C S E SE by (auto simp add: calculate_account_growth_rate_def Let_def)
  have p3: "\<forall>x. real_of_int s < x \<and> x < real_of_int e \<longrightarrow>
            calculate_account_growth_rate account x people_data =
              (a + (c - a) * ((x - real_of_int s) / (real_of_int e - real_of_int s))) / 100"
    using A C S E by (auto simp add: calculate_account_growth_rate_def Let_def)
  have p4: "continuous_on UNIV (\<lambda>x. calculate_account_growth_rate account x people_data)"
    by (rule growth_cont[OF lt])
  have p5: "a \<le> c \<longrightarrow> (\<forall>x y. x \<le> y \<longrightarrow>
            calculate_account_growth_rate account x people_data
              \<le> calculate_account_growth_rate account y people_data)"
  proof (intro impI allI)
    fix x y :: real assume ac: "a \<le> c" and xy: "x \<le> y"
    have "(c - a) * cl x \<le> (c - a) * cl y"
      using clm[OF xy] ac by (simp add: mult_left_mono)
    then show "calculate_account_growth_rate account x people_data
              \<le> calculate_account_growth_rate account y people_data"
      by (simp add: eq)
  qed
  have p6: "c \<le> a \<longrightarrow> (\<forall>x y. x \<le> y \<longrightarrow>
            calculate_account_growth_rate account y people_data
              \<le> calculate_account_growth_rate account x people_data)"
  proof (intro impI allI)
    fix x y :: real assume ca: "c \<le> a" and xy: "x \<le> y"
    have "(a - c) * cl x \<le> (a - c) * cl y"
      using clm[OF xy] ca by (simp add: mult_left_mono)
    then have "(c - a) * cl y \<le> (c - a) * cl x"
      by (simp add: algebra_simps)
    then show "calculate_account_growth_rate account y people_data
              \<le> calculate_account_growth_rate account x people_data"
      by (simp add: eq)
  qed
  show ?thesis using p1 p2 p3 p4 p5 p6 by blast
qed

theorem growth_rate_piecewise_linear_witness:
  "calculate_account_growth_rate
      \<lparr>balance = 1000, aggressive_rate = Some 8, conservative_rate = Some 4,
       transition_start_age = Some 50, transition_end_age = Some 60,
       account_owner = ''Joint'', growth_strategy = None, account_type = None\<rparr> 40 [] = 8 / 100
   \<and> calculate_account_growth_rate
      \<lparr>balance = 1000, aggressive_rate = Some 8, conservative_rate = Some 4,
       transition_start_age = Some 50, transition_end_age = Some 60,
       account_owner = ''Joint'', growth_strategy = None, account_type = None\<rparr> 70 [] = 4 / 100
   \<and> calculate_account_growth_rate
      \<lparr>balance = 1000, aggressive_rate = Some 8, conservative_rate = Some 4,
       transition_start_age = Some 50, transition_end_age = Some 60,
       account_owner = ''Joint'', growth_strategy = None, account_type = None\<rparr> 55 [] = 6 / 100
   \<and> calculate_account_growth_rate
      \<lparr>balance = 1000, aggressive_rate = Some 8, conservative_rate = Some 4,
       transition_start_age = Some 50, transition_end_age = Some 60,
       account_owner = ''Joint'', growth_strategy = None, account_type = None\<rparr> 58 []
     \<le> calculate_account_growth_rate
      \<lparr>balance = 1000, aggressive_rate = Some 8, conservative_rate = Some 4,
       transition_start_age = Some 50, transition_end_age = Some 60,
       account_owner = ''Joint'', growth_strategy = None, account_type = None\<rparr> 52 []"
proof -
  let ?acc = "\<lparr>balance = 1000, aggressive_rate = Some 8, conservative_rate = Some 4,
       transition_start_age = Some 50, transition_end_age = Some 60,
       account_owner = ''Joint'', growth_strategy = None, account_type = None\<rparr>"
  have h: "py_get (aggressive_rate ?acc) 6.0 = 8" "py_get (conservative_rate ?acc) 6.0 = 4"
     "py_get (transition_start_age ?acc) 50 = 50" "py_get (transition_end_age ?acc) 65 = 60"
     "(50::int) < 60"
    by (simp_all add: py_get_def)
  note t = growth_rate_piecewise_linear[OF h, of "[]"]
  have a: "calculate_account_growth_rate ?acc 40 [] = 8 / 100" using t by simp
  have b: "calculate_account_growth_rate ?acc 70 [] = 4 / 100" using t by simp
  have c: "calculate_account_growth_rate ?acc 55 [] = 6 / 100"
  proof -
    have "real_of_int 50 < 55 \<and> (55::real) < real_of_int 60" by simp
    then have "calculate_account_growth_rate ?acc 55 [] =
        (8 + (4 - 8) * ((55 - real_of_int 50) / (real_of_int 60 - real_of_int 50))) / 100"
      using t by blast
    then show ?thesis by simp
  qed
  have d: "calculate_account_growth_rate ?acc 58 [] \<le> calculate_account_growth_rate ?acc 52 []"
  proof -
    have "(4::real) \<le> 8" "(52::real) \<le> 58" by simp_all
    then show ?thesis using t by blast
  qed
  show ?thesis using a b c d by blast
qed

subsection \<open>Remaining balance of a mortgage\<close>

lemma mortgage_zero_rate:
  assumes "0 < T"
  shows "calculate_mortgage_balance P 0 T pm
           = Inr (max 0 (P - P * real_of_int pm / real_of_int (T * 12)))"
  using assms by (simp add: calculate_mortgage_balance_def py_div_def Let_def)

lemma mortgage_returns:
  assumes "0 \<le> r" "0 < T"
  shows "\<exists>b. calculate_mortgage_balance P r T pm = Inr b \<and> 0 \<le> b"
proof (cases "r = 0")
  case True
  then show ?thesis using mortgage_zero_rate[OF assms(2)] by simp
next
  case False
  then have r: "0 < r" using assms by simp
  then have b: "1 < 1 + r / 12" by simp
  have "1 < (1 + r / 12) powi (T * 12)" using powi_gt_one[OF b] assms by simp
  then have nz: "(1 + r / 12) powi (T * 12) - 1 \<noteq> 0" by simp
  have nb: "1 + r / 12 \<noteq> 0" using b by simp
  show ?thesis using False nz nb
    by (simp add: calculate_mortgage_balance_def py_div_def py_pow_def Let_def)
qed

lemma mortgage_paid_off:
  assumes "0 \<le> P" "0 \<le> r" "0 < T" "T * 12 \<le> pm"
  shows "calculate_mortgage_balance P r T pm = Inr 0"
proof (cases "r = 0")
  case True
  have t: "0 < real_of_int (T * 12)" using assms by simp
  have "real_of_int (T * 12) \<le> real_of_int pm" using assms(4) by (simp only: of_int_le_iff)
  then have "1 \<le> real_of_int pm / real_of_int (T * 12)" using t by (simp add: le_divide_eq)
  then have "P * 1 \<le> P * (real_of_int pm / real_of_int (T * 12))"
    using assms(1) by (rule mult_left_mono)
  then have "P - P * real_of_int pm / real_of_int (T * 12) \<le> 0" by simp
  then show ?thesis using True mortgage_zero_rate[OF assms(3), of P pm] by (simp add: max_def)
next
  case False
  then show ?thesis using assms by (simp add: calculate_mortgage_balance_def Let_def)
qed

text \<open>
  In exact arithmetic the loan amortizes fully. For a principal \<open>P \<ge> 0\<close>, an annual rate \<open>r \<ge> 0\<close> and a term of \<open>T > 0\<close> years,
  the remaining balance after \<open>T * 12\<close> payments is 0, it is 0 after any number of payments
  of at least \<open>T * 12\<close> (with a zero rate as well, where the paydown is linear), and for every
  number of payments the function returns a balance, never an error, that is not negative.
\<close>

theorem mortgage_fully_amortizes:
  assumes "0 \<le> P" "0 \<le> r" "0 < T"
  shows "calculate_mortgage_balance P r T (T * 12) = Inr 0
     \<and> (\<forall>pm. T * 12 \<le> pm \<longrightarrow> calculate_mortgage_balance P r T pm = Inr 0)
     \<and> (\<forall>pm. \<exists>b. calculate_mortgage_balance P r T pm = Inr b \<and> 0 \<le> b)"
  using mortgage_paid_off[OF assms] mortgage_returns[OF assms(2,3)] by simp

theorem mortgage_fully_amortizes_witness:
  "(0::real) \<le> 200000 \<and> (0::real) \<le> 0.04 \<and> (0::int) < 30
    \<and> calculate_mortgage_balance 200000 0.04 30 360 = Inr 0
    \<and> calculate_mortgage_balance 200000 0.04 30 400 = Inr 0
    \<and> (\<exists>b. calculate_mortgage_balance 200000 0.04 30 6 = Inr b \<and> 0 \<le> b)"
proof -
  have h: "(0::real) \<le> 200000" "(0::real) \<le> 0.04" "(0::int) < 30" by simp_all
  note t = mortgage_fully_amortizes[OF h]
  have a: "calculate_mortgage_balance 200000 0.04 30 360 = Inr 0" using t by simp
  have b: "calculate_mortgage_balance 200000 0.04 30 400 = Inr 0" using t by simp
  have c: "\<exists>b. calculate_mortgage_balance 200000 0.04 30 6 = Inr b \<and> 0 \<le> b" using t by blast
  show ?thesis using a b c by simp
qed

text \<open>
  The rounding on examples: the floats nearest to 0.1 and to 100660.99, and the product
  and the quotient of the zero-rate branch for that principal, each as its significand
  times a power of 2 (in Python's \<open>float.hex\<close>: \<open>0x1.999999999999ap-4\<close>,
  \<open>0x1.8934fd70a3d71p+16\<close>, \<open>0x1.1479423333333p+25\<close>, \<open>0x1.8934fd70a3d70p+16\<close>).
\<close>

lemma fl64_examples:
  "fl64 0.1 * 2 ^ 56 = 7205759403792794
   \<and> fl64 100660.99 * 2 ^ 36 = 6917370560527729
   \<and> fl64 (fl64 100660.99 * 360) * 2 ^ 27 = 4863776175371059
   \<and> fl64 (fl64 (fl64 100660.99 * 360) / 360) * 2 ^ 36 = 6917370560527728"
  by code_simp

text \<open>
  Claim C8. The remaining balance after \<open>T * 12\<close> payments is to be 0, with a zero rate
  as well. With a rate other than 0 the function returns 0 by its test
  \<open>payments_made >= total_payments\<close>. The zero-rate branch has no such test and relies on
  \<open>P - P * 360 / 360\<close> being 0, which it is in exact arithmetic and is not in the floats of
  the code: for the principal 100660.99 (as a float), a term of 30 years and 360 payments
  made, the product and the quotient round to the float just below the principal, and the
  function returns \<open>1 / 2 ^ 36\<close>, about 1.4551915e-11, instead of 0. The same call in
  exact arithmetic gives 0, and with a rate of 4 percent the test gives 0.
\<close>

theorem zero_rate_balance_residual:
  "zero_rate_balance_f64 (fl64 100660.99) 30 360 = Inr (1 / 2 ^ 36)
   \<and> calculate_mortgage_balance (fl64 100660.99) 0 30 360 = Inr 0
   \<and> calculate_mortgage_balance (fl64 100660.99) 0.04 30 360 = Inr 0"
proof -
  have a: "zero_rate_balance_f64 (fl64 100660.99) 30 360 = Inr (1 / 2 ^ 36)"
    by code_simp
  have b: "calculate_mortgage_balance (fl64 100660.99) 0 30 360 = Inr 0"
    by (simp add: calculate_mortgage_balance_def py_div_def)
  have c: "calculate_mortgage_balance (fl64 100660.99) 0.04 30 360 = Inr 0"
    by (simp add: calculate_mortgage_balance_def)
  show ?thesis using a b c by blast
qed

subsection \<open>Equity of a property\<close>

lemma equity_nonneg:
  "calculate_equity_at_year p yr cy = Inr e \<Longrightarrow> 0 \<le> e"
  by (auto simp add: calculate_equity_at_year_def Let_def rbind_def split: if_splits sum.splits)

lemma balance_at_year_returns:
  assumes "0 \<le> property.mortgage_rate p"
  shows "\<exists>b. calculate_mortgage_balance_at_year p yr cy = Inr b"
proof (cases "cls p")
  case (ExistingProperty cv cb)
  show ?thesis
  proof (cases "cb \<le> 0 \<or> yr - cy \<le> 0
      \<or> property.mortgage_term_years p - (cy - property.purchase_year p) \<le> yr - cy")
    case True
    then show ?thesis using ExistingProperty
      by (auto simp add: calculate_mortgage_balance_at_year_def Let_def)
  next
    case False
    then have T: "0 < property.mortgage_term_years p - (cy - property.purchase_year p)" by linarith
    from mortgage_returns[OF assms T] obtain b where
      "calculate_mortgage_balance cb (property.mortgage_rate p)
         (property.mortgage_term_years p - (cy - property.purchase_year p)) ((yr - cy) * 12) = Inr b"
      by blast
    then show ?thesis using ExistingProperty False
      by (auto simp add: calculate_mortgage_balance_at_year_def Let_def)
  qed
next
  case FutureProperty
  show ?thesis
  proof (cases "yr < property.purchase_year p
      \<or> yr - property.purchase_year p \<ge> property.mortgage_term_years p")
    case True
    then show ?thesis using FutureProperty
      by (auto simp add: calculate_mortgage_balance_at_year_def Let_def)
  next
    case False
    then have T: "0 < property.mortgage_term_years p" by linarith
    from mortgage_returns[OF assms T] obtain b where
      "calculate_mortgage_balance (property.purchase_price p * (1 - property.down_payment_percent p))
         (property.mortgage_rate p) (property.mortgage_term_years p)
         ((yr - property.purchase_year p) * 12) = Inr b"
      by blast
    then show ?thesis using FutureProperty False
      by (auto simp add: calculate_mortgage_balance_at_year_def Let_def)
  qed
qed

lemma equity_returns:
  assumes "0 \<le> property.mortgage_rate p"
  shows "\<exists>e. calculate_equity_at_year p yr cy = Inr e \<and> 0 \<le> e"
  using balance_at_year_returns[OF assms, of yr cy]
  by (auto simp add: calculate_equity_at_year_def Let_def)

lemma equity_after_sale:
  "property.sale_year p = Some sy \<Longrightarrow> sy < yr \<Longrightarrow> calculate_equity_at_year p yr cy = Inr 0"
  by (simp add: calculate_equity_at_year_def is_sold_before_year_def)

lemma equity_in_sale_year:
  "property.sale_year p = Some yr \<Longrightarrow>
   calculate_equity_at_year p yr cy =
     rbind (calculate_mortgage_balance_at_year p yr cy)
       (\<lambda>bal. Inr (max 0 (calculate_value_at_year p yr cy - bal)))"
  by (simp add: calculate_equity_at_year_def is_sold_before_year_def Let_def)

lemma impact_sale_year_equity:
  assumes "create_property pd = Inr p" "property.sale_year p = Some yr"
    "impact_of_property cy yr res pd = Inr res'"
  shows "map_of (equity_values res') (property.property_name p) = Some 0"
proof -
  have nm: "property_data.property_name pd \<noteq> None"
    using assms(1) by (auto simp add: create_property_def py_item_def split: option.splits)
  have sold: "is_sold_in_year p yr" "\<not> is_sold_before_year p yr"
    using assms(2) by (simp_all add: is_sold_in_year_def is_sold_before_year_def)
  show ?thesis using assms(3) nm sold assms(1)
    by (auto simp add: impact_of_property_def Let_def rbind_def update_conv
        split: sum.splits property_class.splits)
qed

text \<open>
  Claim C2, as stated, fails in the sale year itself: \<open>calculate_equity_at_year\<close> tests
  \<open>is_sold_before_year\<close>, which holds only for years after the sale year, so in the sale
  year the method still returns the equity before the sale (the sale proceeds are computed
  from it). A property owned outright, worth 300000, sold in 2030: its equity in 2030 is
  300000, not 0.
\<close>

theorem equity_in_sale_year_counterexample:
  "property.sale_year
      \<lparr>property.property_name = ''Home'', property.mortgage_rate = 0.04,
       property.mortgage_term_years = 30, property.appreciation_rate = 0,
       property.sale_year = Some 2030, property.purchase_year = 2020,
       property.purchase_price = 250000, property.down_payment_percent = 0.2,
       cls = ExistingProperty 300000 0\<rparr> = Some 2030
   \<and> (2030::int) \<ge> 2030
   \<and> calculate_equity_at_year
      \<lparr>property.property_name = ''Home'', property.mortgage_rate = 0.04,
       property.mortgage_term_years = 30, property.appreciation_rate = 0,
       property.sale_year = Some 2030, property.purchase_year = 2020,
       property.purchase_price = 250000, property.down_payment_percent = 0.2,
       cls = ExistingProperty 300000 0\<rparr> 2030 2025 = Inr 300000"
  by (simp add: calculate_equity_at_year_def is_sold_before_year_def
      calculate_value_at_year_def calculate_mortgage_balance_at_year_def Let_def)

text \<open>
  Claim C2, amended. For every property of either class and every year: an equity that
  \<open>calculate_equity_at_year\<close> returns is never negative, and one is returned whenever the
  mortgage rate is not negative; for every year strictly after the sale year the equity is
  exactly 0; in the sale year the method returns \<open>max(0, value - balance)\<close> like in any
  year before, and it is the aggregate of the year, \<open>calculate_real_estate_impact_v2\<close>,
  that records an equity of 0 under the property's name when it processes a property sold
  in that year.
\<close>

theorem equity_nonneg_zero_after_sale:
  "(calculate_equity_at_year p yr cy = Inr e \<longrightarrow> 0 \<le> e)
   \<and> (0 \<le> property.mortgage_rate p \<longrightarrow> (\<exists>e'. calculate_equity_at_year p yr cy = Inr e' \<and> 0 \<le> e'))
   \<and> (property.sale_year p = Some sy \<and> sy < yr \<longrightarrow> calculate_equity_at_year p yr cy = Inr 0)
   \<and> (property.sale_year p = Some yr \<longrightarrow>
        calculate_equity_at_year p yr cy =
          rbind (calculate_mortgage_balance_at_year p yr cy)
            (\<lambda>bal. Inr (max 0 (calculate_value_at_year p yr cy - bal))))
   \<and> (create_property pd = Inr p \<and> property.sale_year p = Some yr
        \<and> impact_of_property cy yr res pd = Inr res' \<longrightarrow>
        map_of (equity_values res') (property.property_name p) = Some 0)"
  using equity_nonneg[of p yr cy e] equity_returns[of p yr cy] equity_after_sale[of p sy yr cy]
    equity_in_sale_year[of p yr cy] impact_sale_year_equity[of pd p yr cy res res']
  by blast

theorem equity_nonneg_zero_after_sale_witness:
  "calculate_equity_at_year
      \<lparr>property.property_name = ''Home'', property.mortgage_rate = 0.04,
       property.mortgage_term_years = 30, property.appreciation_rate = 0,
       property.sale_year = Some 2030, property.purchase_year = 2020,
       property.purchase_price = 250000, property.down_payment_percent = 0.2,
       cls = ExistingProperty 300000 0\<rparr> 2031 2025 = Inr 0
   \<and> (\<exists>e. calculate_equity_at_year
      \<lparr>property.property_name = ''Home'', property.mortgage_rate = 0.04,
       property.mortgage_term_years = 30, property.appreciation_rate = 0,
       property.sale_year = Some 2030, property.purchase_year = 2020,
       property.purchase_price = 250000, property.down_payment_percent = 0.2,
       cls = ExistingProperty 300000 0\<rparr> 2029 2025 = Inr e \<and> 0 \<le> e)
   \<and> (\<exists>res'. impact_of_property 2025 2030
      \<lparr>annual_expenses = 0, annual_income = 0, one_time_expenses = 0,
       property_values = [], equity_values = [], sale_proceeds = 0\<rparr>
      \<lparr>property_data.property_name = Some ''Home'', property_data.mortgage_rate = Some 4,
       property_data.mortgage_term_years = Some 30, property_data.appreciation_rate = Some 0,
       property_data.sale_year = Some 2030, property_data.purchase_year = Some 2020,
       property_data.purchase_price = Some 250000, property_data.down_payment_percent = Some 20,
       is_existing_property = Some True, current_value = Some 300000,
       current_mortgage_balance = Some 0\<rparr> = Inr res' \<and> map_of (equity_values res') ''Home'' = Some 0)"
proof -
  let ?home = "\<lparr>property.property_name = ''Home'', property.mortgage_rate = 0.04,
       property.mortgage_term_years = 30, property.appreciation_rate = 0,
       property.sale_year = Some 2030, property.purchase_year = 2020,
       property.purchase_price = 250000, property.down_payment_percent = 0.2,
       cls = ExistingProperty 300000 0\<rparr>"
  let ?row = "\<lparr>property_data.property_name = Some ''Home'', property_data.mortgage_rate = Some 4,
       property_data.mortgage_term_years = Some 30, property_data.appreciation_rate = Some 0,
       property_data.sale_year = Some 2030, property_data.purchase_year = Some 2020,
       property_data.purchase_price = Some 250000, property_data.down_payment_percent = Some 20,
       is_existing_property = Some True, current_value = Some 300000,
       current_mortgage_balance = Some 0\<rparr>"
  let ?empty = "\<lparr>annual_expenses = 0, annual_income = 0, one_time_expenses = 0,
       property_values = [], equity_values = [], sale_proceeds = 0\<rparr>"
  let ?res = "\<lparr>annual_expenses = 0, annual_income = 0, one_time_expenses = 0,
       property_values = [(''Home'', 300000)], equity_values = [(''Home'', 0)],
       sale_proceeds = 282000\<rparr>"
  have cp: "create_property ?row = Inr ?home"
    by (simp add: create_property_def py_item_def py_get_def)
  have sy: "property.sale_year ?home = Some 2030" by simp
  have eq30: "calculate_equity_at_year ?home 2030 2025 = Inr 300000"
    by (simp add: calculate_equity_at_year_def is_sold_before_year_def
      calculate_value_at_year_def calculate_mortgage_balance_at_year_def Let_def)
  have bal30: "calculate_mortgage_balance_at_year ?home 2030 2025 = Inr 0"
    by (simp add: calculate_mortgage_balance_at_year_def)
  have val30: "calculate_value_at_year ?home 2030 2025 = 300000"
    by (simp add: calculate_value_at_year_def)
  have sold: "is_sold_in_year ?home 2030" "\<not> is_sold_before_year ?home 2030"
    by (simp_all add: is_sold_in_year_def is_sold_before_year_def)
  have pr: "calculate_sale_proceeds ?home 2030 2025 = Inr 282000"
    unfolding calculate_sale_proceeds_def using sold(1) eq30 by simp
  have imp: "impact_of_property 2025 2030 ?empty ?row = Inr ?res"
    unfolding impact_of_property_def cp using sold eq30 bal30 val30 pr by simp
  have a: "calculate_equity_at_year ?home 2031 2025 = Inr 0"
    using equity_nonneg_zero_after_sale[of ?home 2031 2025 0 2030] by simp
  have r: "0 \<le> property.mortgage_rate ?home" by simp
  have b: "\<exists>e. calculate_equity_at_year ?home 2029 2025 = Inr e \<and> 0 \<le> e"
    using equity_nonneg_zero_after_sale[of ?home 2029 2025 0 2030] r by blast
  have c: "map_of (equity_values ?res) (property.property_name ?home) = Some 0"
    using equity_nonneg_zero_after_sale[of ?home 2030 2025 0 2030 ?row ?empty ?res] cp sy imp
    by blast
  have "\<exists>res'. impact_of_property 2025 2030 ?empty ?row = Inr res'
          \<and> map_of (equity_values res') ''Home'' = Some 0"
    using imp c by simp
  then show ?thesis using a b by blast
qed

subsection \<open>The projection cache\<close>

lemma get_hit:
  "re_impact_of c yr = Some v \<Longrightarrow> get_real_estate_impact c props cy ag yr = Inr (v, c)"
  by (simp add: get_real_estate_impact_def)

lemma get_stores:
  "get_real_estate_impact c props cy ag yr = Inr (v, c') \<Longrightarrow> re_impact_of c' yr = Some v"
  by (auto simp add: get_real_estate_impact_def rbind_def split: option.splits sum.splits)

lemma get_keeps:
  "re_impact_of c yr = Some v \<Longrightarrow> get_real_estate_impact c props cy ag yr' = Inr (v', c')
     \<Longrightarrow> re_impact_of c' yr = Some v"
  by (auto simp add: get_real_estate_impact_def rbind_def split: option.splits sum.splits)

lemma reaches_keeps:
  "reaches c c' \<Longrightarrow> re_impact_of c yr = Some v \<Longrightarrow> re_impact_of c' yr = Some v"
  by (induction rule: reaches.induct) (auto dest: get_keeps)

text \<open>
  Claim C10. Between two clears the cache answers by the year alone. When a call of
  \<open>get_real_estate_impact\<close> for a year has returned the value \<open>v\<close>, then in every state
  the cache reaches afterwards through further calls (for any years and arguments), a call
  for the same year returns \<open>v\<close> again and leaves the cache as it is, whatever list of
  properties, current year and age it is given.
\<close>

theorem cache_memoizes_on_year:
  assumes "get_real_estate_impact c props1 cy1 ag1 yr = Inr (v, c1)"
      and "reaches c1 c2"
  shows "get_real_estate_impact c2 props2 cy2 ag2 yr = Inr (v, c2)"
  using get_hit[OF reaches_keeps[OF assms(2) get_stores[OF assms(1)]]] .

theorem cache_memoizes_on_year_witness:
  "get_real_estate_impact clear [] 2025 40 2030 =
     Inr (\<lparr>annual_expenses = 0, annual_income = 0, one_time_expenses = 0,
       property_values = [], equity_values = [], sale_proceeds = 0\<rparr>,
       \<lparr>people_ages = Map.empty,
       re_impact_of = [2030 \<mapsto> \<lparr>annual_expenses = 0, annual_income = 0, one_time_expenses = 0,
       property_values = [], equity_values = [], sale_proceeds = 0\<rparr>],
       cached_current_year = None\<rparr>)
   \<and> get_real_estate_impact
       \<lparr>people_ages = Map.empty,
       re_impact_of = [2030 \<mapsto> \<lparr>annual_expenses = 0, annual_income = 0, one_time_expenses = 0,
       property_values = [], equity_values = [], sale_proceeds = 0\<rparr>],
       cached_current_year = None\<rparr>
       [\<lparr>property_data.property_name = Some ''Home'', property_data.mortgage_rate = None,
       property_data.mortgage_term_years = None, property_data.appreciation_rate = Some 0,
       property_data.sale_year = None, property_data.purchase_year = None,
       property_data.purchase_price = None, property_data.down_payment_percent = None,
       is_existing_property = Some True, current_value = Some 300000,
       current_mortgage_balance = None\<rparr>] 2026 41 2031 =
     Inr (\<lparr>annual_expenses = 0, annual_income = 0, one_time_expenses = 0,
       property_values = [(''Home'', 300000)], equity_values = [(''Home'', 300000)],
       sale_proceeds = 0\<rparr>,
       \<lparr>people_ages = Map.empty,
       re_impact_of = [2030 \<mapsto> \<lparr>annual_expenses = 0, annual_income = 0, one_time_expenses = 0,
       property_values = [], equity_values = [], sale_proceeds = 0\<rparr>,
         2031 \<mapsto> \<lparr>annual_expenses = 0, annual_income = 0, one_time_expenses = 0,
       property_values = [(''Home'', 300000)], equity_values = [(''Home'', 300000)],
       sale_proceeds = 0\<rparr>],
       cached_current_year = None\<rparr>)
   \<and> calculate_real_estate_impact_v2
       [\<lparr>property_data.property_name = Some ''Home'', property_data.mortgage_rate = None,
       property_data.mortgage_term_years = None, property_data.appreciation_rate = Some 0,
       property_data.sale_year = None, property_data.purchase_year = None,
       property_data.purchase_price = None, property_data.down_payment_percent = None,
       is_existing_property = Some True, current_value = Some 300000,
       current_mortgage_balance = None\<rparr>] 2026 41 2030 =
     Inr \<lparr>annual_expenses = 0, annual_income = 0, one_time_expenses = 0,
       property_values = [(''Home'', 300000)], equity_values = [(''Home'', 300000)],
       sale_proceeds = 0\<rparr>
   \<and> get_real_estate_impact
       \<lparr>people_ages = Map.empty,
       re_impact_of = [2030 \<mapsto> \<lparr>annual_expenses = 0, annual_income = 0, one_time_expenses = 0,
       property_values = [], equity_values = [], sale_proceeds = 0\<rparr>,
         2031 \<mapsto> \<lparr>annual_expenses = 0, annual_income = 0, one_time_expenses = 0,
       property_values = [(''Home'', 300000)], equity_values = [(''Home'', 300000)],
       sale_proceeds = 0\<rparr>],
       cached_current_year = None\<rparr>
       [\<lparr>property_data.property_name = Some ''Home'', property_data.mortgage_rate = None,
       property_data.mortgage_term_years = None, property_data.appreciation_rate = Some 0,
       property_data.sale_year = None, property_data.purchase_year = None,
       property_data.purchase_price = None, property_data.down_payment_percent = None,
       is_existing_property = Some True, current_value = Some 300000,
       current_mortgage_balance = None\<rparr>] 2026 41 2030 =
     Inr (\<lparr>annual_expenses = 0, annual_income = 0, one_time_expenses = 0,
       property_values = [], equity_values = [], sale_proceeds = 0\<rparr>,
       \<lparr>people_ages = Map.empty,
       re_impact_of = [2030 \<mapsto> \<lparr>annual_expenses = 0, annual_income = 0, one_time_expenses = 0,
       property_values = [], equity_values = [], sale_proceeds = 0\<rparr>,
         2031 \<mapsto> \<lparr>annual_expenses = 0, annual_income = 0, one_time_expenses = 0,
       property_values = [(''Home'', 300000)], equity_values = [(''Home'', 300000)],
       sale_proceeds = 0\<rparr>],
       cached_current_year = None\<rparr>)"
proof -
  let ?c1 = "\<lparr>people_ages = Map.empty,
       re_impact_of = [2030 \<mapsto> \<lparr>annual_expenses = 0, annual_income = 0, one_time_expenses = 0,
       property_values = [], equity_values = [], sale_proceeds = 0\<rparr>],
       cached_current_year = None\<rparr>"
  let ?c2 = "\<lparr>people_ages = Map.empty,
       re_impact_of = [2030 \<mapsto> \<lparr>annual_expenses = 0, annual_income = 0, one_time_expenses = 0,
       property_values = [], equity_values = [], sale_proceeds = 0\<rparr>,
         2031 \<mapsto> \<lparr>annual_expenses = 0, annual_income = 0, one_time_expenses = 0,
       property_values = [(''Home'', 300000)], equity_values = [(''Home'', 300000)],
       sale_proceeds = 0\<rparr>],
       cached_current_year = None\<rparr>"
  let ?row = "\<lparr>property_data.property_name = Some ''Home'', property_data.mortgage_rate = None,
       property_data.mortgage_term_years = None, property_data.appreciation_rate = Some 0,
       property_data.sale_year = None, property_data.purchase_year = None,
       property_data.purchase_price = None, property_data.down_payment_percent = None,
       is_existing_property = Some True, current_value = Some 300000,
       current_mortgage_balance = None\<rparr>"
  have fresh: "calculate_real_estate_impact_v2 [?row] 2026 41 yr = Inr \<lparr>annual_expenses = 0, annual_income = 0, one_time_expenses = 0,
       property_values = [(''Home'', 300000)], equity_values = [(''Home'', 300000)],
       sale_proceeds = 0\<rparr>" for yr
    by (simp add: calculate_real_estate_impact_v2_def impact_of_property_def create_property_def
      py_item_def py_get_def is_sold_before_year_def is_sold_in_year_def
      calculate_equity_at_year_def
      calculate_value_at_year_def calculate_mortgage_balance_at_year_def Let_def)
  have first: "get_real_estate_impact clear [] 2025 40 2030 = Inr (\<lparr>annual_expenses = 0, annual_income = 0, one_time_expenses = 0,
       property_values = [], equity_values = [], sale_proceeds = 0\<rparr>, ?c1)"
    by (simp add: get_real_estate_impact_def clear_def calculate_real_estate_impact_v2_def)
  have other: "get_real_estate_impact ?c1 [?row] 2026 41 2031 = Inr (\<lparr>annual_expenses = 0, annual_income = 0, one_time_expenses = 0,
       property_values = [(''Home'', 300000)], equity_values = [(''Home'', 300000)],
       sale_proceeds = 0\<rparr>, ?c2)"
    by (simp add: get_real_estate_impact_def fresh)
  have r: "reaches ?c1 ?c2"
    using reaches_call[OF reaches_refl other] .
  have second: "get_real_estate_impact ?c2 [?row] 2026 41 2030 = Inr (\<lparr>annual_expenses = 0, annual_income = 0, one_time_expenses = 0,
       property_values = [], equity_values = [], sale_proceeds = 0\<rparr>, ?c2)"
    using cache_memoizes_on_year[OF first r] .
  show ?thesis using first other fresh second by blast
qed

subsection \<open>Malformed income and expense items\<close>

lemma item_age_recurring [simp]:
  "item_age (sc\<lparr>recurring_expenses := l\<rparr>) ag yr who = item_age sc ag yr who"
  by (simp add: item_age_def Let_def split: option.splits)

lemma expense_amount_recurring [simp]:
  "expense_amount (sc\<lparr>recurring_expenses := l\<rparr>) ag yr e = expense_amount sc ag yr e"
  by (simp add: expense_amount_def cong: option.case_cong)

lemma sum_expenses_recurring [simp]:
  "sum_expenses (sc\<lparr>recurring_expenses := l\<rparr>) ag yr xs t = sum_expenses sc ag yr xs t"
  by (induction xs arbitrary: t) simp_all

lemma sum_expenses_append:
  "sum_expenses sc ag yr (xs @ ys) t = sum_expenses sc ag yr ys (sum_expenses sc ag yr xs t)"
  by (induction xs arbitrary: t) simp_all

lemma expense_amount_malformed:
  assumes "person e = None \<or> start_age e = None \<or> end_age e = None
         \<or> annual_amount e = None \<or> growth_rate e = None
         \<or> (\<exists>s t. start_age e = Some s \<and> end_age e = Some t \<and> s > t)"
  shows "expense_amount sc ag yr e = 0"
  using assms by (auto simp add: expense_amount_def Let_def split: option.splits)

text \<open>
  The expense loop does skip: a recurring expense that lacks a required field or has
  \<open>start_age > end_age\<close> is passed over, and \<open>calculate_total_expenses\<close> gives what it
  gives for the scenario without that item.
\<close>

lemma expenses_skip_malformed:
  assumes "person e = None \<or> start_age e = None \<or> end_age e = None
         \<or> annual_amount e = None \<or> growth_rate e = None
         \<or> (\<exists>s t. start_age e = Some s \<and> end_age e = Some t \<and> s > t)"
  shows "calculate_total_expenses cache (sc\<lparr>recurring_expenses := xs @ e # ys\<rparr>) ag yr
       = calculate_total_expenses cache (sc\<lparr>recurring_expenses := xs @ ys\<rparr>) ag yr"
  using expense_amount_malformed[OF assms]
  by (simp add: calculate_total_expenses_def sum_expenses_append cong: if_cong)

text \<open>
  Claim C7 says that \<open>calculate_total_income\<close> skips a malformed income item as
  \<open>calculate_total_expenses\<close> skips a malformed expense. The income loop has neither the
  test for required fields nor the \<open>try\<close> block of the expense loop: it reads
  \<open>income_src['start_age']\<close> directly. For a scenario with two income sources, the first
  without \<open>start_age\<close>, the call raises KeyError, where the claim gives the total over the
  other source, 50000, which is what the call returns once the first source is removed.
\<close>

theorem income_missing_field_raises:
  "calculate_total_income clear
     \<lparr>scenario.current_age = 40, max_projection_age = 90, scenario.current_year = 2025,
      people = [], accounts = None, account_details = [],
      income_sources =
        [\<lparr>person = Some ''Joint'', start_age = None, end_age = Some 65,
          annual_amount = Some 30000, growth_rate = Some 0\<rparr>,
         \<lparr>person = Some ''Joint'', start_age = Some 30, end_age = Some 65,
          annual_amount = Some 50000, growth_rate = Some 0\<rparr>],
      retirement_income = [], recurring_expenses = [], planned_expenses = [],
      real_estate = []\<rparr> 40 2025 = Inl KeyError
   \<and> calculate_total_income clear
     \<lparr>scenario.current_age = 40, max_projection_age = 90, scenario.current_year = 2025,
      people = [], accounts = None, account_details = [],
      income_sources =
        [\<lparr>person = Some ''Joint'', start_age = Some 30, end_age = Some 65,
          annual_amount = Some 50000, growth_rate = Some 0\<rparr>],
      retirement_income = [], recurring_expenses = [], planned_expenses = [],
      real_estate = []\<rparr> 40 2025 = Inr (50000, clear)"
  by (simp add: calculate_total_income_def income_amount_def item_age_def py_item_def py_get_def)

subsection \<open>Evaluation of the engines on examples\<close>

lemmas engine_defs =
  project_scenario_def project_year_def real_estate_of_year_def
  calculate_total_income_def calculate_total_expenses_def income_amount_def expense_amount_def
  planned_amount_def item_age_def get_real_estate_impact_def calculate_real_estate_impact_v2_def
  impact_of_property_def create_property_def is_sold_before_year_def is_sold_in_year_def
  calculate_equity_at_year_def calculate_value_at_year_def calculate_mortgage_balance_at_year_def
  calculate_sale_proceeds_def monthly_payment_of_def get_down_payment_in_year_def
  initial_account_balances_def owner_age_of_def calculate_account_growth_rate_def
  distribute_cashflow_def contribute_def total_balance_def clear_def py_item_def py_get_def Let_def

text \<open>
  A household aged 60 in 2025 with one account of 100000 at 5\%, an income of 50000, an
  expense of 40000, and a home worth 300000 without a mortgage that is sold in 2025.
\<close>

lemma example_run:
  "project_scenario
     \<lparr>scenario.current_age = 60, max_projection_age = 61, scenario.current_year = 2025,
      people = [], accounts = None,
      account_details =
        [\<lparr>account_detail.account_type = ''Taxable'', account_detail.account_owner = ''Joint'',
          current_balance = 100000, account_detail.growth_strategy = None,
          account_detail.aggressive_rate = Some 5, account_detail.conservative_rate = Some 5,
          account_detail.transition_start_age = Some 50,
          account_detail.transition_end_age = Some 65\<rparr>],
      income_sources =
        [\<lparr>person = Some ''Joint'', start_age = Some 30, end_age = Some 65,
          annual_amount = Some 50000, growth_rate = Some 0\<rparr>],
      retirement_income = [],
      recurring_expenses =
        [\<lparr>person = Some ''Joint'', start_age = Some 30, end_age = Some 95,
          annual_amount = Some 40000, growth_rate = Some 0\<rparr>],
      planned_expenses = [],
      real_estate =
        [\<lparr>property_data.property_name = Some ''Home'', property_data.mortgage_rate = Some 4,
          property_data.mortgage_term_years = Some 30, property_data.appreciation_rate = Some 0,
          property_data.sale_year = Some 2025, property_data.purchase_year = Some 2020,
          property_data.purchase_price = Some 250000,
          property_data.down_payment_percent = Some 20,
          is_existing_property = Some True, current_value = Some 300000,
          current_mortgage_balance = Some 0\<rparr>]\<rparr>
   = Inr [\<lparr>age = 60, year = 2025, income = 50000, expenses = 40000, net_cashflow = 10000,
        real_estate_sales = 282000, portfolio_contribution = 292000,
        portfolio_return_amount = 5000, portfolio_balance = 397000,
        real_estate_equity = 0, total_net_worth = 397000\<rparr>,
          \<lparr>age = 61, year = 2026, income = 50000, expenses = 40000, net_cashflow = 10000,
        real_estate_sales = 0, portfolio_contribution = 10000,
        portfolio_return_amount = 19850, portfolio_balance = 426850,
        real_estate_equity = 0, total_net_worth = 426850\<rparr>]"
  by (simp add: engine_defs upto_rec1)

text \<open>An account of 10000 without growth and an expense of 40000 a year, no income.\<close>

lemma example_depletion_run:
  "project_scenario
     \<lparr>scenario.current_age = 60, max_projection_age = 61, scenario.current_year = 2025,
      people = [], accounts = None,
      account_details =
        [\<lparr>account_detail.account_type = ''Taxable'', account_detail.account_owner = ''Joint'',
          current_balance = 10000, account_detail.growth_strategy = None,
          account_detail.aggressive_rate = Some 0, account_detail.conservative_rate = Some 0,
          account_detail.transition_start_age = Some 50,
          account_detail.transition_end_age = Some 65\<rparr>],
      income_sources = [], retirement_income = [],
      recurring_expenses =
        [\<lparr>person = Some ''Joint'', start_age = Some 30, end_age = Some 95,
          annual_amount = Some 40000, growth_rate = Some 0\<rparr>],
      planned_expenses = [], real_estate = []\<rparr>
   = Inr [\<lparr>age = 60, year = 2025, income = 0, expenses = 40000, net_cashflow = - 40000,
        real_estate_sales = 0, portfolio_contribution = - 40000,
        portfolio_return_amount = 0, portfolio_balance = 0,
        real_estate_equity = 0, total_net_worth = 0\<rparr>,
          \<lparr>age = 61, year = 2026, income = 0, expenses = 40000, net_cashflow = - 40000,
        real_estate_sales = 0, portfolio_contribution = - 40000,
        portfolio_return_amount = 0, portfolio_balance = 0,
        real_estate_equity = 0, total_net_worth = 0\<rparr>]"
  by (simp add: engine_defs upto_rec1)

subsection \<open>Distribution of the net cashflow\<close>

lemma grow_accounts_total:
  "grow_accounts pd cy ag yr accts tr tb = (grown, tr', tb') \<Longrightarrow> tb' = tb + total_balance grown"
proof (induction accts arbitrary: tr tb grown tr' tb')
  case Nil
  then show ?case by (simp add: total_balance_def)
next
  case (Cons ka accts)
  obtain k a where ka: "ka = (k, a)" by (cases ka)
  let ?r = "balance a * calculate_account_growth_rate a (real_of_int (owner_age_of pd cy ag yr a)) pd"
  obtain g1 t1 b1 where rec: "grow_accounts pd cy ag yr accts (tr + ?r) (tb + (balance a + ?r)) = (g1, t1, b1)"
    by (cases "grow_accounts pd cy ag yr accts (tr + ?r) (tb + (balance a + ?r))") auto
  from Cons.IH[OF rec] have b1: "b1 = tb + (balance a + ?r) + total_balance g1" .
  from Cons.prems have "grown = (k, a\<lparr>balance := balance a + ?r\<rparr>) # g1" "tb' = b1"
    using rec by (simp_all add: ka Let_def)
  then show ?case using b1 by (simp add: total_balance_def)
qed

lemma contribute_balance:
  "balance (contribute net T a) = max 0 (balance a + net * (balance a / T))"
  by (simp add: contribute_def Let_def max_def)

lemma total_balance_contribute:
  "total_balance (map (\<lambda>(k, a). (k, contribute net T a)) accts)
     = total_balance accts + net * (total_balance accts / T)
       + sum_list (map (\<lambda>(k, a). max 0 (- (balance a + net * (balance a / T)))) accts)"
proof (induction accts)
  case Nil
  then show ?case by (simp add: total_balance_def)
next
  case (Cons ka accts)
  obtain k a where ka: "ka = (k, a)" by (cases ka)
  have m: "max 0 x = x + max 0 (- x)" for x :: real by (simp add: max_def)
  have "max 0 (balance a + net * (balance a / T))
          = (balance a + net * (balance a / T)) + max 0 (- (balance a + net * (balance a / T)))"
    by (rule m)
  then show ?case using Cons.IH
    by (simp add: ka total_balance_def contribute_balance algebra_simps add_divide_distrib)
qed

lemma no_floor_zero:
  assumes "\<forall>(k, a) \<in> set accts. 0 \<le> balance a + net * (balance a / T)"
  shows "sum_list (map (\<lambda>(k, a). max 0 (- (balance a + net * (balance a / T)))) accts) = 0"
  using assms by (induction accts) (auto simp add: max_def)


text \<open>
  Claim C4. In a year step whose summed balance after growth, \<open>tot\<close>, is positive (it is
  the sum of the balances of the accounts after growth), the sum of the balances after the
  distribution of the net cashflow is the sum before plus the net cashflow plus the amounts
  lost to the floor: an account whose balance \<open>b + net * (b / tot)\<close> would be negative is
  set to 0, which adds the opposite of that negative balance. When no account is floored
  the sum after is exactly the sum before plus the net cashflow. (With a net cashflow of 0
  the step leaves the accounts alone.)
\<close>

theorem distribution_conserves_up_to_floor:
  assumes "grow_accounts people_data cur_year ag yr accts 0 0 = (grown, total_return, tot)"
      and "tot > 0"
  shows "tot = total_balance grown
     \<and> (net \<noteq> 0 \<longrightarrow>
          total_balance (distribute_cashflow net tot grown)
            = total_balance grown + net
              + sum_list (map (\<lambda>(k, a). max 0 (- (balance a + net * (balance a / tot)))) grown))
     \<and> (net = 0 \<longrightarrow> total_balance (distribute_cashflow net tot grown) = total_balance grown + net)
     \<and> ((\<forall>(k, a) \<in> set grown. 0 \<le> balance a + net * (balance a / tot)) \<longrightarrow>
           total_balance (distribute_cashflow net tot grown) = total_balance grown + net)"
proof -
  have t: "tot = total_balance grown" using grow_accounts_total[OF assms(1)] by simp
  have nz: "total_balance grown / tot = 1" using t assms(2) by simp
  let ?fl = "sum_list (map (\<lambda>(k, a). max 0 (- (balance a + net * (balance a / tot)))) grown)"
  have d: "total_balance (distribute_cashflow net tot grown) = total_balance grown + net + ?fl"
    if "net \<noteq> 0"
    using that assms(2) total_balance_contribute[of net tot grown] nz
    by (simp add: distribute_cashflow_def)
  have z: "total_balance (distribute_cashflow net tot grown) = total_balance grown + net"
    if "net = 0"
    using that by (simp add: distribute_cashflow_def)
  have n: "total_balance (distribute_cashflow net tot grown) = total_balance grown + net"
    if "\<forall>(k, a) \<in> set grown. 0 \<le> balance a + net * (balance a / tot)"
  proof (cases "net = 0")
    case True
    then show ?thesis by (rule z)
  next
    case False
    then show ?thesis using d no_floor_zero[OF that] by simp
  qed
  show ?thesis using t d z n by blast
qed


theorem distribution_conserves_up_to_floor_witness:
  "total_balance (distribute_cashflow (- 5000) 4000
      [(''Taxable_Joint'', \<lparr>balance = 1000, aggressive_rate = Some 0, conservative_rate = Some 0,
        transition_start_age = Some 50, transition_end_age = Some 65,
        account_owner = ''Joint'', growth_strategy = None, account_type = None\<rparr>),
      (''IRA_Joint'', \<lparr>balance = 3000, aggressive_rate = Some 0, conservative_rate = Some 0,
        transition_start_age = Some 50, transition_end_age = Some 65,
        account_owner = ''Joint'', growth_strategy = None, account_type = None\<rparr>)])
     = total_balance
      [(''Taxable_Joint'', \<lparr>balance = 1000, aggressive_rate = Some 0, conservative_rate = Some 0,
        transition_start_age = Some 50, transition_end_age = Some 65,
        account_owner = ''Joint'', growth_strategy = None, account_type = None\<rparr>),
      (''IRA_Joint'', \<lparr>balance = 3000, aggressive_rate = Some 0, conservative_rate = Some 0,
        transition_start_age = Some 50, transition_end_age = Some 65,
        account_owner = ''Joint'', growth_strategy = None, account_type = None\<rparr>)] + (- 5000) + 1000
   \<and> total_balance (distribute_cashflow (- 2000) 4000
      [(''Taxable_Joint'', \<lparr>balance = 1000, aggressive_rate = Some 0, conservative_rate = Some 0,
        transition_start_age = Some 50, transition_end_age = Some 65,
        account_owner = ''Joint'', growth_strategy = None, account_type = None\<rparr>),
      (''IRA_Joint'', \<lparr>balance = 3000, aggressive_rate = Some 0, conservative_rate = Some 0,
        transition_start_age = Some 50, transition_end_age = Some 65,
        account_owner = ''Joint'', growth_strategy = None, account_type = None\<rparr>)])
     = total_balance
      [(''Taxable_Joint'', \<lparr>balance = 1000, aggressive_rate = Some 0, conservative_rate = Some 0,
        transition_start_age = Some 50, transition_end_age = Some 65,
        account_owner = ''Joint'', growth_strategy = None, account_type = None\<rparr>),
      (''IRA_Joint'', \<lparr>balance = 3000, aggressive_rate = Some 0, conservative_rate = Some 0,
        transition_start_age = Some 50, transition_end_age = Some 65,
        account_owner = ''Joint'', growth_strategy = None, account_type = None\<rparr>)] + (- 2000)"
proof -
  let ?accts = "[(''Taxable_Joint'', \<lparr>balance = 1000, aggressive_rate = Some 0, conservative_rate = Some 0,
        transition_start_age = Some 50, transition_end_age = Some 65,
        account_owner = ''Joint'', growth_strategy = None, account_type = None\<rparr>),
      (''IRA_Joint'', \<lparr>balance = 3000, aggressive_rate = Some 0, conservative_rate = Some 0,
        transition_start_age = Some 50, transition_end_age = Some 65,
        account_owner = ''Joint'', growth_strategy = None, account_type = None\<rparr>)]"
  have g: "grow_accounts [] 2025 60 2025 ?accts 0 0 = (?accts, 0, 4000)"
    by (simp add: owner_age_of_def calculate_account_growth_rate_def py_get_def)
  have p: "(4000::real) > 0" by simp
  note t = distribution_conserves_up_to_floor[OF g p]
  have fl: "sum_list (map (\<lambda>(k, a). max 0 (- (balance a + (- 5000) * (balance a / 4000)))) ?accts)
              = 1000"
    by simp
  have a: "total_balance (distribute_cashflow (- 5000) 4000 ?accts)
             = total_balance ?accts + (- 5000) + 1000"
    using t[of "- 5000"] fl by simp
  have nf: "\<forall>(k, a) \<in> set ?accts. 0 \<le> balance a + (- 2000) * (balance a / 4000)" by simp
  have b: "total_balance (distribute_cashflow (- 2000) 4000 ?accts)
             = total_balance ?accts + (- 2000)"
    using t[of "- 2000"] nf by blast
  show ?thesis using a b by blast
qed

subsection \<open>The net cashflow of a year record\<close>

lemma impact_age_unused:
  "calculate_real_estate_impact_v2 props cy ag yr = calculate_real_estate_impact_v2 props cy ag' yr"
  by (simp add: calculate_real_estate_impact_v2_def)

lemma coherent_clear: "coherent sc clear"
  by (simp add: coherent_def clear_def)

lemma coherent_get:
  assumes "coherent sc c"
      and "get_real_estate_impact c (real_estate sc) (scenario.current_year sc) ag yr = Inr (v, c')"
  shows "calculate_real_estate_impact_v2 (real_estate sc) (scenario.current_year sc) ag yr = Inr v
       \<and> coherent sc c'"
proof (cases "re_impact_of c yr")
  case None
  then have v: "calculate_real_estate_impact_v2 (real_estate sc) (scenario.current_year sc) ag yr = Inr v"
    and c': "c' = c\<lparr>re_impact_of := (re_impact_of c)(yr \<mapsto> v)\<rparr>"
    using assms(2) by (auto simp add: get_real_estate_impact_def rbind_def split: sum.splits)
  have "calculate_real_estate_impact_v2 (real_estate sc) (scenario.current_year sc) 0 yr = Inr v"
    using v impact_age_unused[of "real_estate sc" "scenario.current_year sc" 0 yr ag] by simp
  then have "coherent sc c'" using assms(1) by (simp add: coherent_def c')
  then show ?thesis using v by simp
next
  case (Some w)
  then have "v = w" "c' = c" using assms(2) by (simp_all add: get_real_estate_impact_def)
  moreover have "calculate_real_estate_impact_v2 (real_estate sc) (scenario.current_year sc) 0 yr = Inr w"
    using assms(1) Some by (simp add: coherent_def)
  ultimately show ?thesis using assms(1)
    impact_age_unused[of "real_estate sc" "scenario.current_year sc" 0 yr ag] by simp
qed

lemma get_clear:
  "calculate_real_estate_impact_v2 props cy ag yr = Inr v \<Longrightarrow>
   get_real_estate_impact clear props cy ag yr = Inr (v, clear\<lparr>re_impact_of := [yr \<mapsto> v]\<rparr>)"
  by (simp add: get_real_estate_impact_def clear_def)

lemma income_coherent:
  assumes "calculate_total_income c sc ag yr = Inr (inc, c')" and "coherent sc c"
  shows "coherent sc c' \<and> (\<exists>c''. calculate_total_income clear sc ag yr = Inr (inc, c''))"
proof -
  from assms(1) obtain t2 where
    t2: "rbind (sum_income sc ag yr (income_sources sc) 0)
           (sum_income sc ag yr (retirement_income sc)) = Inr t2"
    by (auto simp add: calculate_total_income_def rbind_def split: sum.splits)
  show ?thesis
  proof (cases "real_estate sc = []")
    case True
    then have "inc = t2" "c' = c" using assms(1) t2
      by (auto simp add: calculate_total_income_def rbind_def split: sum.splits)
    moreover have "calculate_total_income clear sc ag yr = Inr (t2, clear)" using t2 True
      by (auto simp add: calculate_total_income_def rbind_def split: sum.splits)
    ultimately show ?thesis using assms(2) by blast
  next
    case False
    from assms(1) t2 False obtain re where
      g: "get_real_estate_impact c (real_estate sc) (scenario.current_year sc) ag yr = Inr (re, c')"
      and i: "inc = t2 + annual_income re"
      by (auto simp add: calculate_total_income_def rbind_def split: sum.splits)
    from coherent_get[OF assms(2) g] have
      v: "calculate_real_estate_impact_v2 (real_estate sc) (scenario.current_year sc) ag yr = Inr re"
      and co: "coherent sc c'" by simp_all
    have "calculate_total_income clear sc ag yr
            = Inr (inc, clear\<lparr>re_impact_of := [yr \<mapsto> re]\<rparr>)"
      using t2 False i get_clear[OF v]
      by (auto simp add: calculate_total_income_def rbind_def split: sum.splits)
    then show ?thesis using co by blast
  qed
qed

lemma expenses_coherent:
  assumes "calculate_total_expenses c sc ag yr = Inr (exps, c')" and "coherent sc c"
  shows "coherent sc c' \<and> (\<exists>c''. calculate_total_expenses clear sc ag yr = Inr (exps, c''))"
proof -
  from assms(1) obtain t2 where
    t2: "sum_planned yr (planned_expenses sc) (sum_expenses sc ag yr (recurring_expenses sc) 0) = Inr t2"
    by (auto simp add: calculate_total_expenses_def Let_def rbind_def split: sum.splits)
  show ?thesis
  proof (cases "real_estate sc = []")
    case True
    then have "exps = t2" "c' = c" using assms(1) t2
      by (auto simp add: calculate_total_expenses_def Let_def rbind_def split: sum.splits)
    moreover have "calculate_total_expenses clear sc ag yr = Inr (t2, clear)" using t2 True
      by (auto simp add: calculate_total_expenses_def Let_def rbind_def split: sum.splits)
    ultimately show ?thesis using assms(2) by blast
  next
    case False
    from assms(1) t2 False obtain re where
      g: "get_real_estate_impact c (real_estate sc) (scenario.current_year sc) ag yr = Inr (re, c')"
      and i: "exps = t2 + annual_expenses re + one_time_expenses re"
      by (auto simp add: calculate_total_expenses_def Let_def rbind_def split: sum.splits)
    from coherent_get[OF assms(2) g] have
      v: "calculate_real_estate_impact_v2 (real_estate sc) (scenario.current_year sc) ag yr = Inr re"
      and co: "coherent sc c'" by simp_all
    have "calculate_total_expenses clear sc ag yr
            = Inr (exps, clear\<lparr>re_impact_of := [yr \<mapsto> re]\<rparr>)"
      using t2 False i get_clear[OF v]
      by (auto simp add: calculate_total_expenses_def Let_def rbind_def split: sum.splits)
    then show ?thesis using co by blast
  qed
qed

lemma sales_coherent:
  assumes "real_estate_of_year c sc ag yr e = Inr (cash, eq, c')" and "coherent sc c"
  shows "coherent sc c'
       \<and> Inr cash = (if real_estate sc = [] then Inr 0
                     else map_sum id sale_proceeds
                            (calculate_real_estate_impact_v2 (real_estate sc)
                               (scenario.current_year sc) ag yr))"
proof (cases "real_estate sc = []")
  case True
  then show ?thesis using assms by (auto simp add: real_estate_of_year_def)
next
  case False
  from assms(1) False obtain re where
    g: "get_real_estate_impact c (real_estate sc) (scenario.current_year sc) ag yr = Inr (re, c')"
    and i: "cash = sale_proceeds re"
    by (auto simp add: real_estate_of_year_def rbind_def split: sum.splits)
  from coherent_get[OF assms(2) g] show ?thesis using False i by simp
qed


lemma project_year_fields:
  assumes "project_year sc (c, accts, e) ag = Inr (rec, (c', accts', e'))" and "coherent sc c"
  shows "coherent sc c' \<and> age rec = ag \<and> year_fields sc rec"
proof -
  let ?yr = "scenario.current_year sc + (ag - scenario.current_age sc)"
  from assms(1) obtain inc c1 exps c2 cash eq where
    i: "calculate_total_income c sc ag ?yr = Inr (inc, c1)" and
    x: "calculate_total_expenses c1 sc ag ?yr = Inr (exps, c2)" and
    s: "real_estate_of_year c2 sc ag ?yr e = Inr (cash, eq, c')" and
    r: "age rec = ag" "year rec = ?yr" "income rec = inc" "expenses rec = exps"
       "real_estate_sales rec = cash" "net_cashflow rec = inc - exps + cash - cash"
       "portfolio_contribution rec = inc - exps + cash"
    by (auto simp add: project_year_def Let_def rbind_def split: sum.splits prod.splits)
  from income_coherent[OF i assms(2)] have c1: "coherent sc c1"
    and i': "\<exists>c''. calculate_total_income clear sc ag ?yr = Inr (inc, c'')" by simp_all
  from expenses_coherent[OF x c1] have c2: "coherent sc c2"
    and x': "\<exists>c''. calculate_total_expenses clear sc ag ?yr = Inr (exps, c'')" by simp_all
  from sales_coherent[OF s c2] have c3: "coherent sc c'"
    and s': "Inr cash = (if real_estate sc = [] then Inr 0
                     else map_sum id sale_proceeds
                            (calculate_real_estate_impact_v2 (real_estate sc)
                               (scenario.current_year sc) ag ?yr))" by simp_all
  show ?thesis using c3 r i' x' s' by (simp add: year_fields_def)
qed

lemma project_loop_fields:
  "project_loop sc ages (c, accts, e) acc = Inr (recs, st') \<Longrightarrow> coherent sc c \<Longrightarrow>
   \<exists>new. recs = acc @ new \<and> map age new = ages \<and> list_all (year_fields sc) new"
proof (induction ages arbitrary: c accts e acc)
  case Nil
  then show ?case by simp
next
  case (Cons ag ages)
  from Cons.prems(1) obtain rec c1 accts1 e1 where
    y: "project_year sc (c, accts, e) ag = Inr (rec, (c1, accts1, e1))" and
    l: "project_loop sc ages (c1, accts1, e1) (acc @ [rec]) = Inr (recs, st')"
    by (auto simp add: rbind_def split: sum.splits)
  from project_year_fields[OF y Cons.prems(2)] have
    c1: "coherent sc c1" and a: "age rec = ag" and f: "year_fields sc rec" by simp_all
  from Cons.IH[OF l c1] obtain new where
    n: "recs = (acc @ [rec]) @ new" "map age new = ages" "list_all (year_fields sc) new" by blast
  show ?case
    by (rule exI[of _ "rec # new"]) (use n a f in simp)
qed


text \<open>
  Claim C5, as stated, fails in a year with a sale: the engine computes the local variable
  \<open>net_cashflow\<close> as income minus expenses plus the cash from sales, but what it stores in
  the field \<open>net_cashflow\<close> of the record is that variable minus the cash from sales. In
  the example the home is sold in 2025 for 282000 net: the record of 2025 has a
  \<open>net_cashflow\<close> of 10000, not 292000.
\<close>

theorem net_cashflow_field_counterexample:
  "project_scenario
     \<lparr>scenario.current_age = 60, max_projection_age = 61, scenario.current_year = 2025,
      people = [], accounts = None,
      account_details =
        [\<lparr>account_detail.account_type = ''Taxable'', account_detail.account_owner = ''Joint'',
          current_balance = 100000, account_detail.growth_strategy = None,
          account_detail.aggressive_rate = Some 5, account_detail.conservative_rate = Some 5,
          account_detail.transition_start_age = Some 50,
          account_detail.transition_end_age = Some 65\<rparr>],
      income_sources =
        [\<lparr>person = Some ''Joint'', start_age = Some 30, end_age = Some 65,
          annual_amount = Some 50000, growth_rate = Some 0\<rparr>],
      retirement_income = [],
      recurring_expenses =
        [\<lparr>person = Some ''Joint'', start_age = Some 30, end_age = Some 95,
          annual_amount = Some 40000, growth_rate = Some 0\<rparr>],
      planned_expenses = [],
      real_estate =
        [\<lparr>property_data.property_name = Some ''Home'', property_data.mortgage_rate = Some 4,
          property_data.mortgage_term_years = Some 30, property_data.appreciation_rate = Some 0,
          property_data.sale_year = Some 2025, property_data.purchase_year = Some 2020,
          property_data.purchase_price = Some 250000,
          property_data.down_payment_percent = Some 20,
          is_existing_property = Some True, current_value = Some 300000,
          current_mortgage_balance = Some 0\<rparr>]\<rparr>
   = Inr [\<lparr>age = 60, year = 2025, income = 50000, expenses = 40000, net_cashflow = 10000,
        real_estate_sales = 282000, portfolio_contribution = 292000,
        portfolio_return_amount = 5000, portfolio_balance = 397000,
        real_estate_equity = 0, total_net_worth = 397000\<rparr>,
          \<lparr>age = 61, year = 2026, income = 50000, expenses = 40000, net_cashflow = 10000,
        real_estate_sales = 0, portfolio_contribution = 10000,
        portfolio_return_amount = 19850, portfolio_balance = 426850,
        real_estate_equity = 0, total_net_worth = 426850\<rparr>]
   \<and> net_cashflow
       \<lparr>age = 60, year = 2025, income = 50000, expenses = 40000, net_cashflow = 10000,
        real_estate_sales = 282000, portfolio_contribution = 292000,
        portfolio_return_amount = 5000, portfolio_balance = 397000,
        real_estate_equity = 0, total_net_worth = 397000\<rparr>
     \<noteq> income
       \<lparr>age = 60, year = 2025, income = 50000, expenses = 40000, net_cashflow = 10000,
        real_estate_sales = 282000, portfolio_contribution = 292000,
        portfolio_return_amount = 5000, portfolio_balance = 397000,
        real_estate_equity = 0, total_net_worth = 397000\<rparr>
       - expenses
       \<lparr>age = 60, year = 2025, income = 50000, expenses = 40000, net_cashflow = 10000,
        real_estate_sales = 282000, portfolio_contribution = 292000,
        portfolio_return_amount = 5000, portfolio_balance = 397000,
        real_estate_equity = 0, total_net_worth = 397000\<rparr>
       + real_estate_sales
       \<lparr>age = 60, year = 2025, income = 50000, expenses = 40000, net_cashflow = 10000,
        real_estate_sales = 282000, portfolio_contribution = 292000,
        portfolio_return_amount = 5000, portfolio_balance = 397000,
        real_estate_equity = 0, total_net_worth = 397000\<rparr>"
  using example_run by simp

text \<open>
  Claim C5, amended. \<open>project_scenario\<close> emits one record for each age from
  \<open>current_age\<close> to \<open>max_projection_age\<close>, in this order, and in every record: the year
  is the year of that age; \<open>income\<close> is the total that \<open>calculate_total_income\<close> gives
  for that age and year and \<open>expenses\<close> the total that \<open>calculate_total_expenses\<close> gives;
  \<open>real_estate_sales\<close> is the sale proceeds of the real-estate aggregate of that year (0
  when the scenario has no real estate); the field \<open>net_cashflow\<close> is income minus
  expenses, without the cash from sales (as the docstring of the function lists it); and
  income minus expenses plus the cash from sales is the field \<open>portfolio_contribution\<close>.
\<close>

theorem record_net_cashflow_excludes_sales:
  assumes "project_scenario sc = Inr projections"
  shows "map age projections = [scenario.current_age sc..max_projection_age sc]
     \<and> list_all (\<lambda>r.
          year r = scenario.current_year sc + (age r - scenario.current_age sc)
          \<and> (\<exists>c. calculate_total_income clear sc (age r) (year r) = Inr (income r, c))
          \<and> (\<exists>c. calculate_total_expenses clear sc (age r) (year r) = Inr (expenses r, c))
          \<and> Inr (real_estate_sales r) =
               (if real_estate sc = [] then Inr 0
                else map_sum id sale_proceeds
                       (calculate_real_estate_impact_v2 (real_estate sc)
                          (scenario.current_year sc) (age r) (year r)))
          \<and> net_cashflow r = income r - expenses r
          \<and> portfolio_contribution r = income r - expenses r + real_estate_sales r) projections"
proof -
  from assms obtain st' where
      "project_loop sc [scenario.current_age sc..max_projection_age sc]
            (clear, initial_account_balances sc, 0) [] = Inr (projections, st')"
    by (auto simp add: project_scenario_def rbind_def split: sum.splits)
  from project_loop_fields[OF this coherent_clear] have
    "map age projections = [scenario.current_age sc..max_projection_age sc]"
    "list_all (year_fields sc) projections" by auto
  then show ?thesis by (simp add: year_fields_def[abs_def])
qed


theorem record_net_cashflow_excludes_sales_witness:
  "project_scenario
     \<lparr>scenario.current_age = 60, max_projection_age = 61, scenario.current_year = 2025,
      people = [], accounts = None,
      account_details =
        [\<lparr>account_detail.account_type = ''Taxable'', account_detail.account_owner = ''Joint'',
          current_balance = 100000, account_detail.growth_strategy = None,
          account_detail.aggressive_rate = Some 5, account_detail.conservative_rate = Some 5,
          account_detail.transition_start_age = Some 50,
          account_detail.transition_end_age = Some 65\<rparr>],
      income_sources =
        [\<lparr>person = Some ''Joint'', start_age = Some 30, end_age = Some 65,
          annual_amount = Some 50000, growth_rate = Some 0\<rparr>],
      retirement_income = [],
      recurring_expenses =
        [\<lparr>person = Some ''Joint'', start_age = Some 30, end_age = Some 95,
          annual_amount = Some 40000, growth_rate = Some 0\<rparr>],
      planned_expenses = [],
      real_estate =
        [\<lparr>property_data.property_name = Some ''Home'', property_data.mortgage_rate = Some 4,
          property_data.mortgage_term_years = Some 30, property_data.appreciation_rate = Some 0,
          property_data.sale_year = Some 2025, property_data.purchase_year = Some 2020,
          property_data.purchase_price = Some 250000,
          property_data.down_payment_percent = Some 20,
          is_existing_property = Some True, current_value = Some 300000,
          current_mortgage_balance = Some 0\<rparr>]\<rparr>
   = Inr [\<lparr>age = 60, year = 2025, income = 50000, expenses = 40000, net_cashflow = 10000,
        real_estate_sales = 282000, portfolio_contribution = 292000,
        portfolio_return_amount = 5000, portfolio_balance = 397000,
        real_estate_equity = 0, total_net_worth = 397000\<rparr>,
          \<lparr>age = 61, year = 2026, income = 50000, expenses = 40000, net_cashflow = 10000,
        real_estate_sales = 0, portfolio_contribution = 10000,
        portfolio_return_amount = 19850, portfolio_balance = 426850,
        real_estate_equity = 0, total_net_worth = 426850\<rparr>]
   \<and> (\<exists>c. calculate_total_income clear
     \<lparr>scenario.current_age = 60, max_projection_age = 61, scenario.current_year = 2025,
      people = [], accounts = None,
      account_details =
        [\<lparr>account_detail.account_type = ''Taxable'', account_detail.account_owner = ''Joint'',
          current_balance = 100000, account_detail.growth_strategy = None,
          account_detail.aggressive_rate = Some 5, account_detail.conservative_rate = Some 5,
          account_detail.transition_start_age = Some 50,
          account_detail.transition_end_age = Some 65\<rparr>],
      income_sources =
        [\<lparr>person = Some ''Joint'', start_age = Some 30, end_age = Some 65,
          annual_amount = Some 50000, growth_rate = Some 0\<rparr>],
      retirement_income = [],
      recurring_expenses =
        [\<lparr>person = Some ''Joint'', start_age = Some 30, end_age = Some 95,
          annual_amount = Some 40000, growth_rate = Some 0\<rparr>],
      planned_expenses = [],
      real_estate =
        [\<lparr>property_data.property_name = Some ''Home'', property_data.mortgage_rate = Some 4,
          property_data.mortgage_term_years = Some 30, property_data.appreciation_rate = Some 0,
          property_data.sale_year = Some 2025, property_data.purchase_year = Some 2020,
          property_data.purchase_price = Some 250000,
          property_data.down_payment_percent = Some 20,
          is_existing_property = Some True, current_value = Some 300000,
          current_mortgage_balance = Some 0\<rparr>]\<rparr> 60 2025 = Inr (50000, c))
   \<and> (\<exists>c. calculate_total_expenses clear
     \<lparr>scenario.current_age = 60, max_projection_age = 61, scenario.current_year = 2025,
      people = [], accounts = None,
      account_details =
        [\<lparr>account_detail.account_type = ''Taxable'', account_detail.account_owner = ''Joint'',
          current_balance = 100000, account_detail.growth_strategy = None,
          account_detail.aggressive_rate = Some 5, account_detail.conservative_rate = Some 5,
          account_detail.transition_start_age = Some 50,
          account_detail.transition_end_age = Some 65\<rparr>],
      income_sources =
        [\<lparr>person = Some ''Joint'', start_age = Some 30, end_age = Some 65,
          annual_amount = Some 50000, growth_rate = Some 0\<rparr>],
      retirement_income = [],
      recurring_expenses =
        [\<lparr>person = Some ''Joint'', start_age = Some 30, end_age = Some 95,
          annual_amount = Some 40000, growth_rate = Some 0\<rparr>],
      planned_expenses = [],
      real_estate =
        [\<lparr>property_data.property_name = Some ''Home'', property_data.mortgage_rate = Some 4,
          property_data.mortgage_term_years = Some 30, property_data.appreciation_rate = Some 0,
          property_data.sale_year = Some 2025, property_data.purchase_year = Some 2020,
          property_data.purchase_price = Some 250000,
          property_data.down_payment_percent = Some 20,
          is_existing_property = Some True, current_value = Some 300000,
          current_mortgage_balance = Some 0\<rparr>]\<rparr> 60 2025 = Inr (40000, c))
   \<and> map_sum id sale_proceeds (calculate_real_estate_impact_v2 (real_estate
     \<lparr>scenario.current_age = 60, max_projection_age = 61, scenario.current_year = 2025,
      people = [], accounts = None,
      account_details =
        [\<lparr>account_detail.account_type = ''Taxable'', account_detail.account_owner = ''Joint'',
          current_balance = 100000, account_detail.growth_strategy = None,
          account_detail.aggressive_rate = Some 5, account_detail.conservative_rate = Some 5,
          account_detail.transition_start_age = Some 50,
          account_detail.transition_end_age = Some 65\<rparr>],
      income_sources =
        [\<lparr>person = Some ''Joint'', start_age = Some 30, end_age = Some 65,
          annual_amount = Some 50000, growth_rate = Some 0\<rparr>],
      retirement_income = [],
      recurring_expenses =
        [\<lparr>person = Some ''Joint'', start_age = Some 30, end_age = Some 95,
          annual_amount = Some 40000, growth_rate = Some 0\<rparr>],
      planned_expenses = [],
      real_estate =
        [\<lparr>property_data.property_name = Some ''Home'', property_data.mortgage_rate = Some 4,
          property_data.mortgage_term_years = Some 30, property_data.appreciation_rate = Some 0,
          property_data.sale_year = Some 2025, property_data.purchase_year = Some 2020,
          property_data.purchase_price = Some 250000,
          property_data.down_payment_percent = Some 20,
          is_existing_property = Some True, current_value = Some 300000,
          current_mortgage_balance = Some 0\<rparr>]\<rparr>) 2025 60 2025) = Inr 282000
   \<and> map_sum id sale_proceeds (calculate_real_estate_impact_v2 (real_estate
     \<lparr>scenario.current_age = 60, max_projection_age = 61, scenario.current_year = 2025,
      people = [], accounts = None,
      account_details =
        [\<lparr>account_detail.account_type = ''Taxable'', account_detail.account_owner = ''Joint'',
          current_balance = 100000, account_detail.growth_strategy = None,
          account_detail.aggressive_rate = Some 5, account_detail.conservative_rate = Some 5,
          account_detail.transition_start_age = Some 50,
          account_detail.transition_end_age = Some 65\<rparr>],
      income_sources =
        [\<lparr>person = Some ''Joint'', start_age = Some 30, end_age = Some 65,
          annual_amount = Some 50000, growth_rate = Some 0\<rparr>],
      retirement_income = [],
      recurring_expenses =
        [\<lparr>person = Some ''Joint'', start_age = Some 30, end_age = Some 95,
          annual_amount = Some 40000, growth_rate = Some 0\<rparr>],
      planned_expenses = [],
      real_estate =
        [\<lparr>property_data.property_name = Some ''Home'', property_data.mortgage_rate = Some 4,
          property_data.mortgage_term_years = Some 30, property_data.appreciation_rate = Some 0,
          property_data.sale_year = Some 2025, property_data.purchase_year = Some 2020,
          property_data.purchase_price = Some 250000,
          property_data.down_payment_percent = Some 20,
          is_existing_property = Some True, current_value = Some 300000,
          current_mortgage_balance = Some 0\<rparr>]\<rparr>) 2025 61 2026) = Inr 0"
proof -
  let ?sc = "\<lparr>scenario.current_age = 60, max_projection_age = 61, scenario.current_year = 2025,
      people = [], accounts = None,
      account_details =
        [\<lparr>account_detail.account_type = ''Taxable'', account_detail.account_owner = ''Joint'',
          current_balance = 100000, account_detail.growth_strategy = None,
          account_detail.aggressive_rate = Some 5, account_detail.conservative_rate = Some 5,
          account_detail.transition_start_age = Some 50,
          account_detail.transition_end_age = Some 65\<rparr>],
      income_sources =
        [\<lparr>person = Some ''Joint'', start_age = Some 30, end_age = Some 65,
          annual_amount = Some 50000, growth_rate = Some 0\<rparr>],
      retirement_income = [],
      recurring_expenses =
        [\<lparr>person = Some ''Joint'', start_age = Some 30, end_age = Some 95,
          annual_amount = Some 40000, growth_rate = Some 0\<rparr>],
      planned_expenses = [],
      real_estate =
        [\<lparr>property_data.property_name = Some ''Home'', property_data.mortgage_rate = Some 4,
          property_data.mortgage_term_years = Some 30, property_data.appreciation_rate = Some 0,
          property_data.sale_year = Some 2025, property_data.purchase_year = Some 2020,
          property_data.purchase_price = Some 250000,
          property_data.down_payment_percent = Some 20,
          is_existing_property = Some True, current_value = Some 300000,
          current_mortgage_balance = Some 0\<rparr>]\<rparr>"
  note t = record_net_cashflow_excludes_sales[OF example_run]
  have a: "\<exists>c. calculate_total_income clear ?sc 60 2025 = Inr (50000, c)"
    using t by simp
  have b: "\<exists>c. calculate_total_expenses clear ?sc 60 2025 = Inr (40000, c)"
    using t by simp
  have c: "map_sum id sale_proceeds
             (calculate_real_estate_impact_v2 (real_estate ?sc) 2025 60 2025) = Inr 282000"
    using t by simp
  have d: "map_sum id sale_proceeds
             (calculate_real_estate_impact_v2 (real_estate ?sc) 2025 61 2026) = Inr 0"
    using t by simp
  show ?thesis using example_run a b c d by blast
qed

subsection \<open>Balances are never negative\<close>

lemma growth_rate_lower:
  assumes "- 100 \<le> py_get (aggressive_rate a) 6.0" "- 100 \<le> py_get (conservative_rate a) 6.0"
  shows "- 1 \<le> calculate_account_growth_rate a x pd"
proof -
  let ?A = "py_get (aggressive_rate a) 6.0"
  let ?C = "py_get (conservative_rate a) 6.0"
  let ?s = "real_of_int (py_get (transition_start_age a) 50)"
  let ?e = "real_of_int (py_get (transition_end_age a) 65)"
  show ?thesis
  proof (cases "x \<le> ?s")
    case True
    then show ?thesis using assms by (simp add: calculate_account_growth_rate_def Let_def)
  next
    case False
    note f = False
    show ?thesis
    proof (cases "x \<ge> ?e")
      case True
      then show ?thesis using assms f by (simp add: calculate_account_growth_rate_def Let_def)
    next
      case False
      define t where "t = (x - ?s) / (?e - ?s)"
      have d: "0 < ?e - ?s" using f False by linarith
      have t0: "0 \<le> t" using f d by (simp add: t_def)
      have t1: "t \<le> 1" using False d by (simp add: t_def divide_le_eq)
      have "?A + (?C - ?A) * t = ?A * (1 - t) + ?C * t" by (simp add: algebra_simps)
      moreover have "- 100 * (1 - t) \<le> ?A * (1 - t)" using assms(1) t1 by (intro mult_right_mono) simp_all
      moreover have "- 100 * t \<le> ?C * t" using assms(2) t0 by (intro mult_right_mono) simp_all
      ultimately have "- 100 \<le> ?A + (?C - ?A) * t" by (simp add: algebra_simps)
      then show ?thesis using f False by (simp add: calculate_account_growth_rate_def Let_def t_def)
    qed
  qed
qed

lemma grow_accounts_ok:
  "grow_accounts pd cy ag yr accts tr tb = (grown, tr', tb') \<Longrightarrow>
   list_all (\<lambda>(k, a). acct_ok a) accts \<Longrightarrow> list_all (\<lambda>(k, a). acct_ok a) grown"
proof (induction accts arbitrary: tr tb grown tr' tb')
  case Nil
  then show ?case by simp
next
  case (Cons ka accts)
  obtain k a where ka: "ka = (k, a)" by (cases ka)
  let ?rate = "calculate_account_growth_rate a (real_of_int (owner_age_of pd cy ag yr a)) pd"
  let ?r = "balance a * ?rate"
  obtain g1 t1 b1 where rec: "grow_accounts pd cy ag yr accts (tr + ?r) (tb + (balance a + ?r)) = (g1, t1, b1)"
    by (cases "grow_accounts pd cy ag yr accts (tr + ?r) (tb + (balance a + ?r))") auto
  have oka: "acct_ok a" and okr: "list_all (\<lambda>(k, a). acct_ok a) accts"
    using Cons.prems(2) by (simp_all add: ka)
  from Cons.IH[OF rec okr] have g1: "list_all (\<lambda>(k, a). acct_ok a) g1" .
  have "- 1 \<le> ?rate" using oka by (intro growth_rate_lower) (simp_all add: acct_ok_def)
  then have "0 \<le> 1 + ?rate" by simp
  then have "0 \<le> balance a * (1 + ?rate)" using oka by (simp add: acct_ok_def)
  then have "0 \<le> balance a + ?r" by (simp add: algebra_simps)
  then have "acct_ok (a\<lparr>balance := balance a + ?r\<rparr>)" using oka by (simp add: acct_ok_def)
  moreover from Cons.prems(1) have "grown = (k, a\<lparr>balance := balance a + ?r\<rparr>) # g1"
    using rec by (simp add: ka Let_def)
  ultimately show ?case using g1 by simp
qed

lemma contribute_ok: "acct_ok a \<Longrightarrow> acct_ok (contribute net T a)"
  by (simp add: acct_ok_def contribute_def Let_def)

lemma distribute_ok:
  "list_all (\<lambda>(k, a). acct_ok a) accts \<Longrightarrow>
   list_all (\<lambda>(k, a). acct_ok a) (distribute_cashflow net T accts)"
proof -
  assume ok: "list_all (\<lambda>(k, a). acct_ok a) accts"
  have m: "list_all (\<lambda>(k, a). acct_ok a) (map (\<lambda>(k, a). (k, contribute net T a)) accts)"
    using ok by (induction accts) (auto simp add: contribute_ok)
  have f: "list_all (\<lambda>(k, a). acct_ok a)
             (case accts of [] \<Rightarrow> [] | (k, a) # rest \<Rightarrow> (k, a\<lparr>balance := max 0 net\<rparr>) # rest)"
    using ok by (cases accts) (auto simp add: acct_ok_def)
  show ?thesis using ok m f by (simp add: distribute_cashflow_def)
qed

lemma total_balance_nonneg:
  "list_all (\<lambda>(k, a). acct_ok a) accts \<Longrightarrow> 0 \<le> total_balance accts"
  unfolding total_balance_def
  by (induction accts) (auto simp add: acct_ok_def)

lemma project_year_ok:
  assumes "project_year sc (c, accts, e) ag = Inr (rec, (c', accts', e'))"
      and "list_all (\<lambda>(k, a). acct_ok a) accts"
  shows "list_all (\<lambda>(k, a). acct_ok a) accts' \<and> 0 \<le> portfolio_balance rec"
proof -
  let ?yr = "scenario.current_year sc + (ag - scenario.current_age sc)"
  obtain grown tr tb where g: "grow_accounts (people sc) (scenario.current_year sc) ag ?yr accts 0 0 = (grown, tr, tb)"
    by (cases "grow_accounts (people sc) (scenario.current_year sc) ag ?yr accts 0 0") auto
  have gok: "list_all (\<lambda>(k, a). acct_ok a) grown" using grow_accounts_ok[OF g assms(2)] .
  from assms(1) obtain net where a: "accts' = distribute_cashflow net tb grown"
     and r: "portfolio_balance rec = total_balance (distribute_cashflow net tb grown)"
    by (auto simp add: project_year_def Let_def rbind_def g split: sum.splits prod.splits)
  show ?thesis using a r distribute_ok[OF gok] total_balance_nonneg by simp
qed


lemma project_loop_ok:
  "project_loop sc ages (c, accts, e) acc = Inr (recs, (c', accts', e')) \<Longrightarrow>
   list_all (\<lambda>(k, a). acct_ok a) accts \<Longrightarrow>
   list_all (\<lambda>r. 0 \<le> portfolio_balance r) acc \<Longrightarrow>
   list_all (\<lambda>(k, a). acct_ok a) accts' \<and> list_all (\<lambda>r. 0 \<le> portfolio_balance r) recs"
proof (induction ages arbitrary: c accts e acc)
  case Nil
  then show ?case by simp
next
  case (Cons ag ages)
  from Cons.prems(1) obtain rec c1 accts1 e1 where
    y: "project_year sc (c, accts, e) ag = Inr (rec, (c1, accts1, e1))" and
    l: "project_loop sc ages (c1, accts1, e1) (acc @ [rec]) = Inr (recs, (c', accts', e'))"
    by (auto simp add: rbind_def split: sum.splits)
  from project_year_ok[OF y Cons.prems(2)] have
    ok1: "list_all (\<lambda>(k, a). acct_ok a) accts1" and r: "0 \<le> portfolio_balance rec" by simp_all
  have acc1: "list_all (\<lambda>r. 0 \<le> portfolio_balance r) (acc @ [rec])"
    using Cons.prems(3) r by simp
  show ?case using Cons.IH[OF l ok1 acc1] .
qed

lemma update_all:
  "list_all P al \<Longrightarrow> P (k, v) \<Longrightarrow> list_all P (AList.update k v al)"
  by (induction al) auto

lemma fold_update_all:
  "list_all P al \<Longrightarrow> list_all (\<lambda>x. P (f x, g x)) xs \<Longrightarrow>
   list_all P (fold (\<lambda>x acc. AList.update (f x) (g x) acc) xs al)"
  by (induction xs arbitrary: al) (auto simp add: update_all)

lemma initial_ok:
  assumes "case accounts sc of
             Some d \<Rightarrow> list_all (\<lambda>(n, b). 0 \<le> b) d
           | None \<Rightarrow> list_all (\<lambda>a. 0 \<le> current_balance a
                         \<and> - 100 \<le> py_get (account_detail.aggressive_rate a) 0.05
                         \<and> - 100 \<le> py_get (account_detail.conservative_rate a) 0.05)
                        (account_details sc)"
  shows "list_all (\<lambda>(k, a). acct_ok a) (initial_account_balances sc)"
proof (cases "accounts sc")
  case None
  have "list_all (\<lambda>(k, a). acct_ok a)
     (fold (\<lambda>x acc. AList.update (account_detail.account_type x @ ''_'' @ account_detail.account_owner x)
        \<lparr>balance = current_balance x,
          aggressive_rate = Some (py_get (account_detail.aggressive_rate x) 0.05),
          conservative_rate = Some (py_get (account_detail.conservative_rate x) 0.05),
          transition_start_age = Some (py_get (account_detail.transition_start_age x) 50),
          transition_end_age = Some (py_get (account_detail.transition_end_age x) 65),
          account_owner = account_detail.account_owner x,
          growth_strategy = None, account_type = None\<rparr> acc) (account_details sc) [])"
    using assms None
    by (intro fold_update_all) (auto simp add: list_all_iff acct_ok_def py_get_def)
  then show ?thesis using None by (simp add: initial_account_balances_def)
next
  case (Some d)
  have "list_all (\<lambda>(k, a). acct_ok a)
     (fold (\<lambda>x acc. AList.update (fst x)
        \<lparr>balance = snd x, aggressive_rate = Some 0.05, conservative_rate = Some 0.05,
          transition_start_age = Some 50, transition_end_age = Some 65,
          account_owner = ''Joint'', growth_strategy = None, account_type = None\<rparr> acc) d [])"
    using assms Some
    by (intro fold_update_all) (auto simp add: list_all_iff acct_ok_def py_get_def)
  then show ?thesis using Some by (simp add: initial_account_balances_def case_prod_unfold)
qed


text \<open>
  With transition ages that are numbers (or absent), the balances stay at or above 0.
  For a scenario whose accounts start with balances that are not negative and
  whose aggressive and conservative rates, where given, are at least \<open>-100\<close> percent (in
  the older form of the accounts only balances are given): after every year of the run, that
  is in the state of the loop after the ages from \<open>current_age\<close> to any \<open>last_age\<close>, the
  balance of every account is at least 0; and every record that \<open>project_scenario\<close> emits
  has a \<open>portfolio_balance\<close> of at least 0.
\<close>

theorem balances_never_negative:
  assumes "case accounts sc of
             Some d \<Rightarrow> list_all (\<lambda>(n, b). 0 \<le> b) d
           | None \<Rightarrow> list_all (\<lambda>a. 0 \<le> current_balance a
                         \<and> - 100 \<le> py_get (account_detail.aggressive_rate a) 0.05
                         \<and> - 100 \<le> py_get (account_detail.conservative_rate a) 0.05)
                        (account_details sc)"
  shows "(project_loop sc [scenario.current_age sc..last_age]
            (clear, initial_account_balances sc, 0) [] = Inr (recs, (c, accts, e)) \<longrightarrow>
            list_all (\<lambda>(k, a). 0 \<le> balance a) accts)
       \<and> (project_scenario sc = Inr projections \<longrightarrow>
            list_all (\<lambda>r. 0 \<le> portfolio_balance r) projections)"
proof -
  note i = initial_ok[OF assms]
  have a: "list_all (\<lambda>(k, a). 0 \<le> balance a) accts"
    if "project_loop sc [scenario.current_age sc..last_age]
            (clear, initial_account_balances sc, 0) [] = Inr (recs, (c, accts, e))"
  proof -
    have "list_all (\<lambda>(k, a). acct_ok a) accts" using project_loop_ok[OF that i] by simp
    then show ?thesis by (auto simp add: list_all_iff acct_ok_def)
  qed
  have b: "list_all (\<lambda>r. 0 \<le> portfolio_balance r) projections"
    if "project_scenario sc = Inr projections"
  proof -
    from that obtain c' accts' e' where
      "project_loop sc [scenario.current_age sc..max_projection_age sc]
            (clear, initial_account_balances sc, 0) [] = Inr (projections, (c', accts', e'))"
      by (auto simp add: project_scenario_def rbind_def split: sum.splits)
    from project_loop_ok[OF this i] show ?thesis by simp
  qed
  show ?thesis using a b by blast
qed


theorem balances_never_negative_witness:
  "project_scenario
     \<lparr>scenario.current_age = 60, max_projection_age = 61, scenario.current_year = 2025,
      people = [], accounts = None,
      account_details =
        [\<lparr>account_detail.account_type = ''Taxable'', account_detail.account_owner = ''Joint'',
          current_balance = 10000, account_detail.growth_strategy = None,
          account_detail.aggressive_rate = Some 0, account_detail.conservative_rate = Some 0,
          account_detail.transition_start_age = Some 50,
          account_detail.transition_end_age = Some 65\<rparr>],
      income_sources = [], retirement_income = [],
      recurring_expenses =
        [\<lparr>person = Some ''Joint'', start_age = Some 30, end_age = Some 95,
          annual_amount = Some 40000, growth_rate = Some 0\<rparr>],
      planned_expenses = [], real_estate = []\<rparr>
   = Inr [\<lparr>age = 60, year = 2025, income = 0, expenses = 40000, net_cashflow = - 40000,
        real_estate_sales = 0, portfolio_contribution = - 40000,
        portfolio_return_amount = 0, portfolio_balance = 0,
        real_estate_equity = 0, total_net_worth = 0\<rparr>,
          \<lparr>age = 61, year = 2026, income = 0, expenses = 40000, net_cashflow = - 40000,
        real_estate_sales = 0, portfolio_contribution = - 40000,
        portfolio_return_amount = 0, portfolio_balance = 0,
        real_estate_equity = 0, total_net_worth = 0\<rparr>]
   \<and> list_all (\<lambda>r. 0 \<le> portfolio_balance r)
      [\<lparr>age = 60, year = 2025, income = 0, expenses = 40000, net_cashflow = - 40000,
        real_estate_sales = 0, portfolio_contribution = - 40000,
        portfolio_return_amount = 0, portfolio_balance = 0,
        real_estate_equity = 0, total_net_worth = 0\<rparr>,
       \<lparr>age = 61, year = 2026, income = 0, expenses = 40000, net_cashflow = - 40000,
        real_estate_sales = 0, portfolio_contribution = - 40000,
        portfolio_return_amount = 0, portfolio_balance = 0,
        real_estate_equity = 0, total_net_worth = 0\<rparr>]"
proof -
  let ?sc = "\<lparr>scenario.current_age = 60, max_projection_age = 61, scenario.current_year = 2025,
      people = [], accounts = None,
      account_details =
        [\<lparr>account_detail.account_type = ''Taxable'', account_detail.account_owner = ''Joint'',
          current_balance = 10000, account_detail.growth_strategy = None,
          account_detail.aggressive_rate = Some 0, account_detail.conservative_rate = Some 0,
          account_detail.transition_start_age = Some 50,
          account_detail.transition_end_age = Some 65\<rparr>],
      income_sources = [], retirement_income = [],
      recurring_expenses =
        [\<lparr>person = Some ''Joint'', start_age = Some 30, end_age = Some 95,
          annual_amount = Some 40000, growth_rate = Some 0\<rparr>],
      planned_expenses = [], real_estate = []\<rparr>"
  have h: "case accounts ?sc of
             Some d \<Rightarrow> list_all (\<lambda>(n, b). 0 \<le> b) d
           | None \<Rightarrow> list_all (\<lambda>a. 0 \<le> current_balance a
                         \<and> - 100 \<le> py_get (account_detail.aggressive_rate a) 0.05
                         \<and> - 100 \<le> py_get (account_detail.conservative_rate a) 0.05)
                        (account_details ?sc)"
    by (simp add: py_get_def)
  show ?thesis using example_depletion_run balances_never_negative[OF h] by blast
qed

subsection \<open>A blank transition age\<close>

lemmas nan_defs =
  year_accounts_nan_def distribute_cashflow_nan_def contribute_nan_def total_balance_nan_def
  calculate_account_growth_rate_nan_def owner_age_nan_def fadd_def fsub_def fmul_def fdiv_def
  fle_def flt_def Let_def

text \<open>
  On accounts whose values are all numbers, the reading over floats that may be NaN gives
  what \<open>calculate_account_growth_rate\<close>, \<open>grow_accounts\<close>, \<open>distribute_cashflow\<close> and
  \<open>total_balance\<close> give.
\<close>

lemma rate_nan_agrees:
  "calculate_account_growth_rate_nan (as_float_account a) (Num x) pd
     = Inr (Num (calculate_account_growth_rate a x pd))"
  by (auto simp add: calculate_account_growth_rate_nan_def calculate_account_growth_rate_def
      as_float_account_def fle_def fdiv_def fsub_def fadd_def fmul_def Let_def)

lemma owner_age_nan_agrees:
  "owner_age_nan pd cy ag yr (as_float_account a) = owner_age_of pd cy ag yr a"
  by (simp add: owner_age_nan_def owner_age_of_def as_float_account_def)

lemma as_float_balance_update:
  "(as_float_account a)\<lparr>float_account.balance := Num b\<rparr> = as_float_account (a\<lparr>balance := b\<rparr>)"
  by (simp add: as_float_account_def)

lemma grow_nan_agrees:
  "grow_accounts_nan pd cy ag yr (map (\<lambda>(k, a). (k, as_float_account a)) accts) (Num tr) (Num tb)
     = (case grow_accounts pd cy ag yr accts tr tb of
          (grown, tr', tb') \<Rightarrow> Inr (map (\<lambda>(k, a). (k, as_float_account a)) grown, Num tr', Num tb'))"
proof (induction accts arbitrary: tr tb)
  case Nil
  then show ?case by simp
next
  case (Cons ka accts)
  obtain k a where ka: "ka = (k, a)" by (cases ka)
  let ?rate = "calculate_account_growth_rate a (real_of_int (owner_age_of pd cy ag yr a)) pd"
  let ?r = "balance a * ?rate"
  have rate: "calculate_account_growth_rate_nan (as_float_account a)
                (Num (real_of_int (owner_age_nan pd cy ag yr (as_float_account a)))) pd
              = Inr (Num ?rate)"
    by (simp add: owner_age_nan_agrees rate_nan_agrees)
  have bal: "float_account.balance (as_float_account a) = Num (balance a)"
    by (simp add: as_float_account_def)
  have upd: "(as_float_account a)\<lparr>float_account.balance := Num (balance a + ?r)\<rparr>
               = as_float_account (a\<lparr>balance := balance a + ?r\<rparr>)"
    by (rule as_float_balance_update)
  obtain g t b where rec: "grow_accounts pd cy ag yr accts (tr + ?r) (tb + (balance a + ?r)) = (g, t, b)"
    by (cases "grow_accounts pd cy ag yr accts (tr + ?r) (tb + (balance a + ?r))") auto
  have ih: "grow_accounts_nan pd cy ag yr (map (\<lambda>(k, a). (k, as_float_account a)) accts)
              (Num (tr + ?r)) (Num (tb + (balance a + ?r)))
            = Inr (map (\<lambda>(k, a). (k, as_float_account a)) g, Num t, Num b)"
    using Cons.IH[of "tr + ?r" "tb + (balance a + ?r)"] rec by simp
  have lhs: "grow_accounts_nan pd cy ag yr
               ((k, as_float_account a) # map (\<lambda>(k, a). (k, as_float_account a)) accts)
               (Num tr) (Num tb)
             = Inr ((k, as_float_account (a\<lparr>balance := balance a + ?r\<rparr>))
                      # map (\<lambda>(k, a). (k, as_float_account a)) g, Num t, Num b)"
    by (simp add: Let_def rate bal fmul_def fadd_def upd ih)
  have rhs: "grow_accounts pd cy ag yr ((k, a) # accts) tr tb
               = ((k, a\<lparr>balance := balance a + ?r\<rparr>) # g, t, b)"
    by (simp add: Let_def rec)
  have m: "map (\<lambda>(k, a). (k, as_float_account a)) ((k, a) # accts)
             = (k, as_float_account a) # map (\<lambda>(k, a). (k, as_float_account a)) accts"
    by simp
  show ?case unfolding ka m lhs rhs by simp
qed

lemma contribute_nan_agrees:
  assumes "T \<noteq> 0"
  shows "contribute_nan net (Num T) (as_float_account a) = Inr (as_float_account (contribute net T a))"
proof -
  have bal: "float_account.balance (as_float_account a) = Num (balance a)"
    by (simp add: as_float_account_def)
  show ?thesis using assms
    by (simp add: contribute_nan_def contribute_def bal fdiv_def fmul_def fadd_def flt_def Let_def
        as_float_balance_update)
qed

lemma contribute_all_nan_agrees:
  assumes "T \<noteq> 0"
  shows "contribute_all_nan net (Num T) (map (\<lambda>(k, a). (k, as_float_account a)) accts)
       = Inr (map (\<lambda>(k, a). (k, as_float_account a))
                (map (\<lambda>(k, a). (k, contribute net T a)) accts))"
  by (induction accts) (auto simp add: contribute_nan_agrees[OF assms])

lemma distribute_nan_agrees:
  "distribute_cashflow_nan net (Num T) (map (\<lambda>(k, a). (k, as_float_account a)) accts)
     = Inr (map (\<lambda>(k, a). (k, as_float_account a)) (distribute_cashflow net T accts))"
proof (cases accts)
  case Nil
  then show ?thesis
    by (simp add: distribute_cashflow_nan_def distribute_cashflow_def flt_def)
next
  case (Cons ka rest)
  obtain k a where ka: "ka = (k, a)" by (cases ka)
  show ?thesis
  proof (cases "0 < T")
    case True
    then show ?thesis
      using contribute_all_nan_agrees[of T net accts]
      by (simp add: distribute_cashflow_nan_def distribute_cashflow_def flt_def)
  next
    case False
    then show ?thesis unfolding Cons ka
      by (simp add: distribute_cashflow_nan_def distribute_cashflow_def flt_def
          as_float_balance_update)
  qed
qed

lemma foldl_fadd_Num:
  "foldl fadd (Num s) (map (\<lambda>(k, a). float_account.balance (as_float_account a)) accts)
     = Num (s + sum_list (map (\<lambda>(k, a). balance a) accts))"
  by (induction accts arbitrary: s) (auto simp add: fadd_def as_float_account_def)

lemma total_nan_agrees:
  "total_balance_nan (map (\<lambda>(k, a). (k, as_float_account a)) accts) = Num (total_balance accts)"
  using foldl_fadd_Num[of 0 accts]
  by (simp add: total_balance_nan_def total_balance_def comp_def case_prod_unfold)

lemma year_accounts_nan_agrees:
  "year_accounts_nan pd cy ag yr net (map (\<lambda>(k, a). (k, as_float_account a)) accts)
     = (case grow_accounts pd cy ag yr accts 0 0 of
          (grown, tr, tb) \<Rightarrow>
            Inr (map (\<lambda>(k, a). (k, as_float_account a)) (distribute_cashflow net tb grown),
                 Num tr, Num (total_balance (distribute_cashflow net tb grown))))"
  by (simp add: year_accounts_nan_def grow_nan_agrees distribute_nan_agrees total_nan_agrees
      split: prod.splits)


text \<open>
  Claim C9. After every year every account balance is to be at least 0, for accounts with
  rates of at least \<open>-100\<close> percent and initial balances of at least 0. The accounts form
  tells the user that the transition ages of an account with one fixed rate do not matter,
  and the validation of the accounts accepts blank ages; a blank age reaches the engine as
  NaN. Then both comparisons of \<open>calculate_account_growth_rate\<close> are false, the
  interpolation yields NaN, and so do the return, the balance of the account and the
  \<open>portfolio_balance\<close> of the year: for one joint account of 100000 with both rates 3
  and blank ages, in a year with a net cashflow of \<open>-40000\<close>, the balance and the
  portfolio balance are NaN, and NaN is not at least 0. With the ages 50 and 65 the same
  account ends the year at 63000.
\<close>

theorem blank_transition_ages_give_nan:
  "year_accounts_nan [] 2025 60 2025 (- 40000)
     [(''Taxable_Joint'',
       \<lparr>float_account.balance = Num 100000, float_account.aggressive_rate = Num 3,
        float_account.conservative_rate = Num 3, float_account.transition_start_age = NaN,
        float_account.transition_end_age = NaN, float_account.account_owner = ''Joint''\<rparr>)]
   = Inr ([(''Taxable_Joint'',
       \<lparr>float_account.balance = NaN, float_account.aggressive_rate = Num 3,
        float_account.conservative_rate = Num 3, float_account.transition_start_age = NaN,
        float_account.transition_end_age = NaN, float_account.account_owner = ''Joint''\<rparr>)],
       NaN, NaN)
   \<and> \<not> fle (Num 0) NaN
   \<and> year_accounts_nan [] 2025 60 2025 (- 40000)
     [(''Taxable_Joint'',
       \<lparr>float_account.balance = Num 100000, float_account.aggressive_rate = Num 3,
        float_account.conservative_rate = Num 3, float_account.transition_start_age = Num 50,
        float_account.transition_end_age = Num 65, float_account.account_owner = ''Joint''\<rparr>)]
   = Inr ([(''Taxable_Joint'',
       \<lparr>float_account.balance = Num 63000, float_account.aggressive_rate = Num 3,
        float_account.conservative_rate = Num 3, float_account.transition_start_age = Num 50,
        float_account.transition_end_age = Num 65, float_account.account_owner = ''Joint''\<rparr>)],
       Num 3000, Num 63000)"
  by (simp add: nan_defs)


subsection \<open>Monte Carlo with every volatility 0 against the deterministic engine\<close>

lemmas mc_defs =
  run_single_simulation_with_def mc_year_def mc_growth_def generate_correlated_returns_def
  deterministic_rate_of_def mc_initial_account_balances_def

lemma det_view_simps [simp]:
  "det_view [] = []"
  "det_view ((k, a) # accts) = (k, det_fields a) # det_view accts"
  by (simp_all add: det_view_def)

lemma det_view_update:
  "det_view (AList.update k v al) = AList.update k (det_fields v) (det_view al)"
  by (induction al) (auto simp add: det_view_def)

lemma det_view_fold:
  "(\<And>x. det_fields (g x) = g' x) \<Longrightarrow>
   det_view (fold (\<lambda>x acc. AList.update (f x) (g x) acc) xs al)
     = fold (\<lambda>x acc. AList.update (f x) (g' x) acc) xs (det_view al)"
  by (induction xs arbitrary: al) (simp_all add: det_view_update)

lemma det_view_initial:
  assumes "accounts sc = None"
  shows "det_view (mc_initial_account_balances sc) = initial_account_balances sc"
  using assms
  by (simp add: mc_initial_account_balances_def initial_account_balances_def
      det_view_fold[where g' = "\<lambda>account. \<lparr>balance = current_balance account,
                     aggressive_rate = Some (py_get (account_detail.aggressive_rate account) 0.05),
                     conservative_rate = Some (py_get (account_detail.conservative_rate account) 0.05),
                     transition_start_age = Some (py_get (account_detail.transition_start_age account) 50),
                     transition_end_age = Some (py_get (account_detail.transition_end_age account) 65),
                     account_owner = account_detail.account_owner account,
                     growth_strategy = None, account_type = None\<rparr>"] det_fields_def)

lemma rate_det_fields [simp]:
  "deterministic_rate_of pd cy ag yr (det_fields a) = deterministic_rate_of pd cy ag yr a"
  by (simp add: deterministic_rate_of_def owner_age_of_def calculate_account_growth_rate_def
      det_fields_def)

lemma balance_det_fields [simp]: "balance (det_fields a) = balance a"
  by (simp add: det_fields_def)

lemma total_balance_det_view [simp]: "total_balance (det_view accts) = total_balance accts"
  by (induction accts) (auto simp add: total_balance_def)

lemma contribute_det_fields:
  "contribute net T (det_fields a) = det_fields (contribute net T a)"
  by (simp add: contribute_def det_fields_def Let_def)

lemma distribute_det_view:
  "distribute_cashflow net T (det_view accts) = det_view (distribute_cashflow net T accts)"
proof -
  have m: "map (\<lambda>(k, a). (k, contribute net T a)) (det_view accts)
         = det_view (map (\<lambda>(k, a). (k, contribute net T a)) accts)"
    by (induction accts) (auto simp add: contribute_det_fields)
  have f: "(case det_view accts of [] \<Rightarrow> [] | (k, a) # rest \<Rightarrow> (k, a\<lparr>balance := max 0 net\<rparr>) # rest)
         = det_view (case accts of [] \<Rightarrow> [] | (k, a) # rest \<Rightarrow> (k, a\<lparr>balance := max 0 net\<rparr>) # rest)"
    by (cases accts) (auto simp add: det_fields_def)
  show ?thesis using m f by (simp add: distribute_cashflow_def)
qed

lemma zero_vol_returns:
  fixes es :: "real list"
  shows "length es = length xs \<Longrightarrow>
   map (\<lambda>(i, (expected, vol)). expected + vol * z i) (enumerate n (zip es (map (\<lambda>x. 0) xs))) = es"
  by (induction es xs arbitrary: n rule: list_induct2) simp_all

lemma generate_zero_vol:
  assumes "length es = length objs" "objs \<noteq> []"
  shows "generate_correlated_returns z objs es (map (\<lambda>x. 0) objs) = Inr es"
proof (cases "length objs = 1")
  case True
  then obtain e o1 where "es = [e]" "objs = [o1]" using assms(1)
    by (auto simp add: length_Suc_conv)
  then show ?thesis by (simp add: generate_correlated_returns_def)
next
  case False
  then show ?thesis using zero_vol_returns[OF assms(1), of z 0]
    by (simp add: generate_correlated_returns_def)
qed

lemma mc_grow_det:
  "\<exists>g. mc_grow_accounts accts (map (deterministic_rate_of pd cy ag yr) (map snd accts)) tr tb
          = Inr (g, snd (grow_accounts pd cy ag yr (det_view accts) tr tb))
      \<and> det_view g = fst (grow_accounts pd cy ag yr (det_view accts) tr tb)"
proof (induction accts arbitrary: tr tb)
  case Nil
  then show ?case by simp
next
  case (Cons ka accts)
  obtain k a where ka: "ka = (k, a)" by (cases ka)
  let ?r = "balance a * deterministic_rate_of pd cy ag yr a"
  from Cons.IH[of "tr + ?r" "tb + (balance a + ?r)"] obtain g where
    g: "mc_grow_accounts accts (map (deterministic_rate_of pd cy ag yr) (map snd accts))
          (tr + ?r) (tb + (balance a + ?r))
          = Inr (g, snd (grow_accounts pd cy ag yr (det_view accts) (tr + ?r) (tb + (balance a + ?r))))"
    and v: "det_view g = fst (grow_accounts pd cy ag yr (det_view accts) (tr + ?r) (tb + (balance a + ?r)))"
    by blast
  have r: "calculate_account_growth_rate (det_fields a)
             (real_of_int (owner_age_of pd cy ag yr (det_fields a))) pd
           = deterministic_rate_of pd cy ag yr a"
    using rate_det_fields[of pd cy ag yr a] by (simp add: deterministic_rate_of_def)
  show ?case
    apply (rule exI[of _ "(k, a\<lparr>balance := balance a + ?r\<rparr>) # g"])
    using g v r
    by (simp add: ka Let_def det_fields_def split: prod.splits)
qed


lemma mc_growth_det:
  assumes "\<And>a r. vol a r = 0"
  shows "\<exists>g. mc_growth vol z pd cy ag yr accts
               = Inr (g, snd (grow_accounts pd cy ag yr (det_view accts) 0 0))
           \<and> det_view g = fst (grow_accounts pd cy ag yr (det_view accts) 0 0)"
proof (cases "accts = []")
  case True
  then show ?thesis by (simp add: mc_growth_def)
next
  case False
  have gen: "generate_correlated_returns z (map snd accts)
               (map (deterministic_rate_of pd cy ag yr) (map snd accts))
               (map (\<lambda>x. 0) (map snd accts))
             = Inr (map (deterministic_rate_of pd cy ag yr) (map snd accts))"
    using False by (intro generate_zero_vol) simp_all
  show ?thesis using mc_grow_det[of accts pd cy ag yr 0 0] gen False
    by (simp add: mc_growth_def assms Let_def)
qed

lemma mc_year_det:
  assumes "\<And>a r. vol a r = 0"
  shows "map_sum id (\<lambda>(r, (c, a, e)). (year_record.truncate r, (c, det_view a, e)))
           (mc_year vol z sid sc (c, accts, e) ag)
         = project_year sc (c, det_view accts, e) ag"
proof -
  let ?yr = "scenario.current_year sc + (ag - scenario.current_age sc)"
  from mc_growth_det[of vol z "people sc" "scenario.current_year sc" ag ?yr accts, OF assms]
  obtain g where
    mg: "mc_growth vol z (people sc) (scenario.current_year sc) ag ?yr accts
           = Inr (g, snd (grow_accounts (people sc) (scenario.current_year sc) ag ?yr (det_view accts) 0 0))"
    and gd: "det_view g = fst (grow_accounts (people sc) (scenario.current_year sc) ag ?yr (det_view accts) 0 0)"
    by blast
  obtain t b where tb: "snd (grow_accounts (people sc) (scenario.current_year sc) ag ?yr (det_view accts) 0 0) = (t, b)"
    by (cases "snd (grow_accounts (people sc) (scenario.current_year sc) ag ?yr (det_view accts) 0 0)")
  have det: "grow_accounts (people sc) (scenario.current_year sc) ag ?yr (det_view accts) 0 0
               = (det_view g, t, b)"
    using gd tb by (simp add: prod_eq_iff)
  have mc: "mc_growth vol z (people sc) (scenario.current_year sc) ag ?yr accts = Inr (g, t, b)"
    using mg tb by simp
  show ?thesis
    by (simp add: mc_year_def project_year_def Let_def rbind_def mc det distribute_det_view
        year_record.truncate_def split: sum.splits prod.splits)
qed

lemma mc_loop_det:
  assumes "\<And>a r. vol a r = 0"
  shows "map_sum id (\<lambda>(rs, (c, a, e)). (map year_record.truncate rs, (c, det_view a, e)))
           (mc_loop vol draws sid sc ages n (c, accts, e) acc)
         = project_loop sc ages (c, det_view accts, e) (map year_record.truncate acc)"
proof (induction ages arbitrary: n c accts e acc)
  case Nil
  then show ?case by simp
next
  case (Cons ag ages)
  note y = mc_year_det[of vol "draws n" sid sc c accts e ag, OF assms]
  show ?case
  proof (cases "mc_year vol (draws n) sid sc (c, accts, e) ag")
    case (Inl err)
    then have "project_year sc (c, det_view accts, e) ag = Inl err" using y by simp
    then show ?thesis using Inl by simp
  next
    case (Inr res)
    obtain rec c1 accts1 e1 where res: "res = (rec, (c1, accts1, e1))" by (cases res) auto
    have py: "project_year sc (c, det_view accts, e) ag
                = Inr (year_record.truncate rec, (c1, det_view accts1, e1))"
      using y Inr res by simp
    show ?thesis using Inr res py Cons.IH[of "Suc n" c1 accts1 e1 "acc @ [rec]"] by simp
  qed
qed


text \<open>
  For a scenario whose accounts are given as \<open>account_details\<close>, a simulation in which
  every volatility is 0 emits, field by field and year by year, the records of the
  deterministic engine (and raises when it raises), whatever the generator delivers.
\<close>

lemma mc_equals_deterministic_for_account_details:
  assumes "accounts sc = None" and "\<And>a r. vol a r = 0"
  shows "map_sum id (map year_record.truncate) (run_single_simulation_with vol normal sc sid)
           = project_scenario sc"
proof -
  note l = mc_loop_det[of vol "normal (sid * 1000)" sid sc
      "[scenario.current_age sc..max_projection_age sc]" 0 clear "mc_initial_account_balances sc" 0 "[]",
      OF assms(2)]
  show ?thesis
  proof (cases "mc_loop vol (normal (sid * 1000)) sid sc
      [scenario.current_age sc..max_projection_age sc] 0 (clear, mc_initial_account_balances sc, 0) []")
    case (Inl err)
    then have "project_loop sc [scenario.current_age sc..max_projection_age sc]
                 (clear, initial_account_balances sc, 0) [] = Inl err"
      using l det_view_initial[OF assms(1)] by simp
    then show ?thesis using Inl
      by (simp add: run_single_simulation_with_def project_scenario_def)
  next
    case (Inr res)
    obtain rs c1 accts1 e1 where res: "res = (rs, (c1, accts1, e1))" by (cases res) auto
    have "project_loop sc [scenario.current_age sc..max_projection_age sc]
                 (clear, initial_account_balances sc, 0) []
            = Inr (map year_record.truncate rs, (c1, det_view accts1, e1))"
      using Inr res l det_view_initial[OF assms(1)] by simp
    then show ?thesis using Inr res
      by (simp add: run_single_simulation_with_def project_scenario_def)
  qed
qed


text \<open>
  Claim C1. A Monte Carlo run with every volatility forced to 0 is to reproduce the
  records of \<open>project_scenario\<close> for every scenario. It does so for accounts given as
  \<open>account_details\<close> (see above), but not for accounts given in the older form, a
  dictionary from names to balances. There \<open>project_scenario\<close> stores both rates, 0.05,
  and the transition ages with each account, while \<open>run_single_simulation\<close> stores the
  aggressive rate only; \<open>calculate_account_growth_rate\<close> then takes its own default of
  6.0 for the conservative rate. For one account of 100000 and an owner aged 70, the
  deterministic engine grows the account by 0.05 percent (50 in the first year), the
  simulation with every volatility 0 by 6 percent (6000).
\<close>

theorem legacy_accounts_diverge:
  "project_scenario
     \<lparr>scenario.current_age = 70, max_projection_age = 71, scenario.current_year = 2025,
      people = [], accounts = Some [(''Savings'', 100000)], account_details = [],
      income_sources = [], retirement_income = [], recurring_expenses = [],
      planned_expenses = [], real_estate = []\<rparr>
   = Inr [\<lparr>age = 70, year = 2025, income = 0, expenses = 0, net_cashflow = 0,
           real_estate_sales = 0, portfolio_contribution = 0,
           portfolio_return_amount = 50, portfolio_balance = 100050,
           real_estate_equity = 0, total_net_worth = 100050\<rparr>,
          \<lparr>age = 71, year = 2026, income = 0, expenses = 0, net_cashflow = 0,
           real_estate_sales = 0, portfolio_contribution = 0,
           portfolio_return_amount = 50.025, portfolio_balance = 100100.025,
           real_estate_equity = 0, total_net_worth = 100100.025\<rparr>]
  \<and> run_single_simulation_with (\<lambda>account rate. 0) (\<lambda>seed n i. 1)
     \<lparr>scenario.current_age = 70, max_projection_age = 71, scenario.current_year = 2025,
      people = [], accounts = Some [(''Savings'', 100000)], account_details = [],
      income_sources = [], retirement_income = [], recurring_expenses = [],
      planned_expenses = [], real_estate = []\<rparr> 0
   = Inr [\<lparr>age = 70, year = 2025, income = 0, expenses = 0, net_cashflow = 0,
           real_estate_sales = 0, portfolio_contribution = 0,
           portfolio_return_amount = 6000, portfolio_balance = 106000,
           real_estate_equity = 0, total_net_worth = 106000, simulation_id = 0\<rparr>,
          \<lparr>age = 71, year = 2026, income = 0, expenses = 0, net_cashflow = 0,
           real_estate_sales = 0, portfolio_contribution = 0,
           portfolio_return_amount = 6360, portfolio_balance = 112360,
           real_estate_equity = 0, total_net_worth = 112360, simulation_id = 0\<rparr>]"
  by (simp add: engine_defs mc_defs upto_rec1)

end
